theory Spec2Isabelle
  imports Main "HOL-Library.AList" "HOL-Library.Multiset"
begin

section \<open>Data model\<close>

text \<open>
  Strings are lists of characters. JavaScript's \<open>undefined\<close>/\<open>null\<close> for an optional
  field is \<open>None\<close>. A value is "falsy" in a condition when it is absent, the empty string,
  \<open>false\<close> or the number 0; the helpers below spell that out for each type used.
  Numbers that the program only uses as integers (page numbers, years, season and
  episode indices, millisecond timestamps) are \<open>int\<close>.
\<close>

definition truthy_str :: "string option \<Rightarrow> bool" where
  "truthy_str s = (case s of None \<Rightarrow> False | Some t \<Rightarrow> t \<noteq> [])"

definition truthy_bool :: "bool option \<Rightarrow> bool" where
  "truthy_bool b = (case b of None \<Rightarrow> False | Some v \<Rightarrow> v)"

text \<open>\<open>x || 0\<close> on an optional number: absent and 0 both give 0.\<close>

definition or0 :: "int option \<Rightarrow> int" where
  "or0 n = (case n of None \<Rightarrow> 0 | Some v \<Rightarrow> v)"

text \<open>\<open>x || 1\<close> on an optional number: absent and 0 both give 1.\<close>

definition or1 :: "int option \<Rightarrow> int" where
  "or1 n = (case n of None \<Rightarrow> 1 | Some v \<Rightarrow> (if v = 0 then 1 else v))"

text \<open>\<open>s || ''\<close> on an optional string.\<close>

definition or_empty :: "string option \<Rightarrow> string" where
  "or_empty s = (case s of None \<Rightarrow> [] | Some t \<Rightarrow> t)"

subsection \<open>Configuration (emby-manager: \<open>EmbySourceConfig\<close>; \<open>AdminConfig\<close> as it is used)\<close>

record EmbySourceConfig =
  key :: string
  name :: string
  enabled :: bool
  ServerURL :: string
  ApiKey :: "string option"
  Username :: "string option"
  Password :: "string option"
  UserId :: "string option"
  AuthToken :: "string option"
  Libraries :: "string list option"
  LastSyncTime :: "int option"
  ItemCount :: "int option"
  isDefault :: "bool option"
  removeEmbyPrefix :: "bool option"
  appendMediaSourceId :: "bool option"
  transcodeMp4 :: "bool option"
  proxyPlay :: "bool option"

text \<open>
  \<open>AdminConfig['EmbyConfig']\<close>: the modern shape has \<open>Sources\<close>; the legacy single-source
  shape has the connection fields directly (primed here, since the source record
  already owns the unprimed names).
\<close>

record EmbyConfigT =
  Sources :: "EmbySourceConfig list option"
  Enabled :: "bool option"
  ServerURL' :: "string option"
  ApiKey' :: "string option"
  Username' :: "string option"
  Password' :: "string option"
  UserId' :: "string option"
  AuthToken' :: "string option"
  Libraries' :: "string list option"
  LastSyncTime' :: "int option"
  ItemCount' :: "int option"

record AdminConfig =
  EmbyConfig :: "EmbyConfigT option"
  DisableYellowFilter :: bool

subsection \<open>Client handles and the manager's cache\<close>

text \<open>
  \<open>EmbyClient\<close> is an external class; the manager only constructs it from a source
  configuration and hands the object out. Object identity is the allocation number
  \<open>client_id\<close>: two handles are the same object iff they were made by the same
  constructor call.
\<close>

record EmbyClient =
  client_id :: nat
  client_config :: EmbySourceConfig

text \<open>
  The singleton \<open>EmbyManager\<close>: the field \<open>clients\<close> (a \<open>Map\<close> from key to client).
  \<open>constructed\<close> is the history of constructor calls (the key each \<open>new EmbyClient\<close>
  was made for, latest first); the program does not read it, it only numbers the objects.
\<close>

record EmbyManager =
  clients :: "string \<rightharpoonup> EmbyClient"
  constructed :: "string list"

datatype error =
    NoEmbySource                  \<comment> \<open>getClient: no Emby source configured\<close>
  | SourceNotFound string         \<comment> \<open>getClient: Emby source not found: key\<close>
  | SourceDisabled string         \<comment> \<open>getClient: Emby source disabled: name\<close>
  | EmbyNotConfigured             \<comment> \<open>callers: Emby not configured or not enabled\<close>
  | UnsupportedMediaType          \<comment> \<open>getEmbyDetail: unsupported media type\<close>
  | ExternalError string          \<comment> \<open>an error thrown by an external collaborator\<close>

section \<open>EmbyManager\<close>

text \<open>\<open>getSources\<close>: the modern shape as it is, the legacy shape as one element, else nothing.\<close>

definition legacySource :: "EmbyConfigT \<Rightarrow> string \<Rightarrow> EmbySourceConfig" where
  "legacySource ec url =
     \<lparr> key = ''default'',
       name = ''Emby'',
       enabled = (case Enabled ec of None \<Rightarrow> False | Some b \<Rightarrow> b),
       ServerURL = url,
       ApiKey = ApiKey' ec,
       Username = Username' ec,
       Password = Password' ec,
       UserId = UserId' ec,
       AuthToken = AuthToken' ec,
       Libraries = Libraries' ec,
       LastSyncTime = LastSyncTime' ec,
       ItemCount = ItemCount' ec,
       isDefault = Some True,
       removeEmbyPrefix = None,
       appendMediaSourceId = None,
       transcodeMp4 = None,
       proxyPlay = None \<rparr>"

definition getSources :: "AdminConfig \<Rightarrow> EmbySourceConfig list" where
  "getSources config =
     (case EmbyConfig config of
        None \<Rightarrow> []
      | Some ec \<Rightarrow>
          (case Sources ec of
             Some ss \<Rightarrow> ss
           | None \<Rightarrow>
               (case ServerURL' ec of
                  None \<Rightarrow> []
                | Some url \<Rightarrow> if url \<noteq> [] then [legacySource ec url] else [])))"

text \<open>\<open>migrateEmbyConfig\<close>: rewrites a legacy configuration into the modern shape.\<close>

definition migrateEmbyConfig :: "AdminConfig \<Rightarrow> AdminConfig" where
  "migrateEmbyConfig config =
     (case EmbyConfig config of
        None \<Rightarrow> config
      | Some oldConfig \<Rightarrow>
          (case Sources oldConfig of
             Some ss \<Rightarrow> config
           | None \<Rightarrow>
               if truthy_str (ServerURL' oldConfig) then
                 config \<lparr> EmbyConfig := Some
                   \<lparr> Sources = Some
                       [(legacySource oldConfig (or_empty (ServerURL' oldConfig)))
                          \<lparr> removeEmbyPrefix := Some False,
                            appendMediaSourceId := Some False,
                            transcodeMp4 := Some False,
                            proxyPlay := Some False \<rparr>],
                     Enabled = None, ServerURL' = None, ApiKey' = None, Username' = None,
                     Password' = None, UserId' = None, AuthToken' = None, Libraries' = None,
                     LastSyncTime' = None, ItemCount' = None \<rparr> \<rparr>
               else config))"

text \<open>\<open>sources.find(s => s.isDefault)\<close> and \<open>sources.find(s => s.key === key)\<close>.\<close>

definition isDefaultSource :: "EmbySourceConfig \<Rightarrow> bool" where
  "isDefaultSource s = truthy_bool (isDefault s)"

definition hasKey :: "string \<Rightarrow> EmbySourceConfig \<Rightarrow> bool" where
  "hasKey k s = (key s = k)"

text \<open>\<open>new EmbyClient(sourceConfig)\<close> followed by \<open>this.clients.set(key, ...)\<close>.\<close>

definition newClient :: "EmbyManager \<Rightarrow> EmbySourceConfig \<Rightarrow> EmbyClient" where
  "newClient m sourceConfig =
     \<lparr> client_id = length (constructed m), client_config = sourceConfig \<rparr>"

definition construct :: "string \<Rightarrow> EmbySourceConfig \<Rightarrow> EmbyManager \<Rightarrow> EmbyManager" where
  "construct k sourceConfig m =
     m \<lparr> clients := (clients m)(k \<mapsto> newClient m sourceConfig),
         constructed := k # constructed m \<rparr>"

text \<open>
  The key \<open>getClient\<close> looks up: the given key when it is truthy, else the key of the
  first source flagged default, else the key of \<open>sources[0]\<close>. Only called on a
  non-empty list (the empty list throws before).
\<close>

fun resolveKey :: "string option \<Rightarrow> EmbySourceConfig list \<Rightarrow> string" where
  "resolveKey k [] = or_empty k"
| "resolveKey k (s0 # rest) =
     (if truthy_str k then or_empty k
      else (case find isDefaultSource (s0 # rest) of
              Some defaultSource \<Rightarrow> key defaultSource
            | None \<Rightarrow> key s0))"

definition getClient ::
  "string option \<Rightarrow> AdminConfig \<Rightarrow> EmbyManager \<Rightarrow> (error + EmbyClient) \<times> EmbyManager" where
  "getClient k config m =
     (let sources = getSources config in
      if sources = [] then (Inl NoEmbySource, m)
      else
        let k' = resolveKey k sources in
        (case clients m k' of
           Some client \<Rightarrow> (Inr client, m)
         | None \<Rightarrow>
             (case find (hasKey k') sources of
                None \<Rightarrow> (Inl (SourceNotFound k'), m)
              | Some sourceConfig \<Rightarrow>
                  if \<not> enabled sourceConfig then (Inl (SourceDisabled (name sourceConfig)), m)
                  else (Inr (newClient m sourceConfig), construct k' sourceConfig m))))"

text \<open>
  \<open>getAllClients\<close>: the result is a JavaScript \<open>Map\<close>, iterated in the order in which its
  keys were first set; an association list updated in place keeps exactly that order.
\<close>

definition getAllClients_step ::
  "EmbySourceConfig \<Rightarrow> (string \<times> EmbyClient \<times> EmbySourceConfig) list \<times> EmbyManager
     \<Rightarrow> (string \<times> EmbyClient \<times> EmbySourceConfig) list \<times> EmbyManager" where
  "getAllClients_step source rm =
     (case rm of (result, m) \<Rightarrow>
        (case clients m (key source) of
           Some client \<Rightarrow> (AList.update (key source) (client, source) result, m)
         | None \<Rightarrow>
             (AList.update (key source) (newClient m source, source) result,
              construct (key source) source m)))"

definition getAllClients ::
  "AdminConfig \<Rightarrow> EmbyManager
     \<Rightarrow> (string \<times> EmbyClient \<times> EmbySourceConfig) list \<times> EmbyManager" where
  "getAllClients config m =
     fold getAllClients_step (filter enabled (getSources config)) ([], m)"

definition getEnabledSources :: "AdminConfig \<Rightarrow> EmbySourceConfig list" where
  "getEnabledSources config = filter enabled (getSources config)"

definition clearCache :: "EmbyManager \<Rightarrow> EmbyManager" where
  "clearCache m = m \<lparr> clients := Map.empty \<rparr>"

text \<open>
  A history of calls on the singleton, each made under the configuration that
  \<open>getConfig()\<close> returns at that moment. Only the manager's state is threaded; the
  values returned to the callers are those of the operations above.
\<close>

datatype manager_op = GetClient "string option" | GetAllClients | ClearCache

fun exec_op :: "AdminConfig \<times> manager_op \<Rightarrow> EmbyManager \<Rightarrow> EmbyManager" where
  "exec_op (config, GetClient k) m = snd (getClient k config m)"
| "exec_op (config, GetAllClients) m = snd (getAllClients config m)"
| "exec_op (config, ClearCache) m = clearCache m"

definition run :: "(AdminConfig \<times> manager_op) list \<Rightarrow> EmbyManager \<Rightarrow> EmbyManager" where
  "run ops m = fold exec_op ops m"

fun is_clear :: "AdminConfig \<times> manager_op \<Rightarrow> bool" where
  "is_clear (config, ClearCache) = True"
| "is_clear (config, other) = False"

section \<open>emby-cache\<close>

text \<open>
  \<open>EmbyCachedEntry<T>\<close>. The cached data is of type \<open>any\<close>; \<open>None\<close> stands for a stored
  \<open>null\<close>, which a reader cannot tell from a miss.
\<close>

record 'a EmbyCachedEntry =
  expiresAt :: int
  data :: "'a option"

type_synonym 'a EMBY_CACHE = "string \<rightharpoonup> 'a EmbyCachedEntry"

definition EMBY_CACHE_TTL_MS :: int where
  "EMBY_CACHE_TTL_MS = 6 * 60 * 60 * 1000"

definition EMBY_VIEWS_CACHE_TTL_MS :: int where
  "EMBY_VIEWS_CACHE_TTL_MS = 24 * 60 * 60 * 1000"

text \<open>
  Decimal rendering of an integer-valued number, as a template literal does it for
  the integers a number holds exactly and prints in plain digits (below \<open>10^21\<close> in
  size); page numbers and years are far inside that range.
\<close>

fun nat_toString :: "nat \<Rightarrow> string" where
  "nat_toString n =
     (if n < 10 then [''0123456789'' ! n]
      else nat_toString (n div 10) @ [''0123456789'' ! (n mod 10)])"

declare nat_toString.simps [simp del]

definition toString :: "int \<Rightarrow> string" where
  "toString i = (if i < 0 then CHR ''-'' # nat_toString (nat (- i)) else nat_toString (nat i))"

definition makeListCacheKey :: "int \<Rightarrow> int \<Rightarrow> string option \<Rightarrow> string option \<Rightarrow> string" where
  "makeListCacheKey page pageSize parentId embyKey =
     (let keyPrefix = (if truthy_str embyKey then ''emby:'' @ or_empty embyKey else ''emby'') in
      if truthy_str parentId
      then keyPrefix @ '':list:'' @ toString page @ '':'' @ toString pageSize @ '':'' @ or_empty parentId
      else keyPrefix @ '':list:'' @ toString page @ '':'' @ toString pageSize)"

text \<open>
  \<open>Date.now()\<close> is the first argument of both functions: the time of the call in
  milliseconds.
\<close>

definition getCachedEmbyList ::
  "int \<Rightarrow> int \<Rightarrow> int \<Rightarrow> string option \<Rightarrow> string option \<Rightarrow> 'a EMBY_CACHE
     \<Rightarrow> 'a option \<times> 'a EMBY_CACHE" where
  "getCachedEmbyList now page pageSize parentId embyKey cache =
     (let k = makeListCacheKey page pageSize parentId embyKey in
      case cache k of
        None \<Rightarrow> (None, cache)
      | Some entry \<Rightarrow>
          if expiresAt entry \<le> now then (None, cache(k := None))
          else (data entry, cache))"

definition setCachedEmbyList ::
  "int \<Rightarrow> int \<Rightarrow> int \<Rightarrow> 'a option \<Rightarrow> string option \<Rightarrow> string option \<Rightarrow> 'a EMBY_CACHE
     \<Rightarrow> 'a EMBY_CACHE" where
  "setCachedEmbyList now page pageSize d parentId embyKey cache =
     (let k = makeListCacheKey page pageSize parentId embyKey in
      cache(k \<mapsto> \<lparr> expiresAt = now + EMBY_CACHE_TTL_MS, data = d \<rparr>))"

section \<open>Search results and the content filter\<close>

text \<open>\<open>SearchResult\<close> as the routes build it; \<open>result_id\<close> is the field \<open>id\<close>.\<close>

record SearchResult =
  result_id :: string
  source :: string
  source_name :: string
  title :: string
  poster :: string
  episodes :: "string list"
  episodes_titles :: "string list"
  year :: string
  desc :: string
  type_name :: "string option"
  douban_id :: int
  subtitles :: "string list list option"
  proxyMode :: "bool option"

text \<open>\<open>s.startsWith(w)\<close> and \<open>s.includes(w)\<close> (primed: the bare word is reserved).\<close>

fun startsWith :: "string \<Rightarrow> string \<Rightarrow> bool" where
  "startsWith s [] = True"
| "startsWith [] (d # w) = False"
| "startsWith (c # s) (d # w) = (c = d \<and> startsWith s w)"

fun includes' :: "string \<Rightarrow> string \<Rightarrow> bool" where
  "includes' [] w = startsWith [] w"
| "includes' (c # s) w = (startsWith (c # s) w \<or> includes' s w)"

text \<open>
  The filter callback of the search route; \<open>yellowWords\<close> (module \<open>yellow\<close>) is a
  parameter.
\<close>

definition survives :: "string list \<Rightarrow> SearchResult \<Rightarrow> bool" where
  "survives yellowWords result =
     (let typeName = or_empty (type_name result) in
      \<not> list_ex (includes' typeName) yellowWords)"

definition yellowFilter :: "bool \<Rightarrow> string list \<Rightarrow> SearchResult list \<Rightarrow> SearchResult list" where
  "yellowFilter disableYellowFilter yellowWords flattenedResults =
     (if \<not> disableYellowFilter then filter (survives yellowWords) flattenedResults
      else flattenedResults)"

section \<open>Fan-out search (route \<open>/api/search\<close>)\<close>

text \<open>
  What an asynchronous call does within the 20000 ms that \<open>Promise.race\<close> gives it:
  it returns a value, it throws, or it is still pending when the timer rejects.
\<close>

datatype 'a outcome = Returns 'a | Throws | Hangs

datatype 'a settled = Fulfilled 'a | Rejected

text \<open>\<open>Promise.race([task, timeout])\<close> and the \<open>.catch(() => [])\<close> behind it.\<close>

fun race :: "'a outcome \<Rightarrow> 'a settled" where
  "race (Returns v) = Fulfilled v"
| "race Throws = Rejected"
| "race Hangs = Rejected"

fun catch_empty :: "'a list settled \<Rightarrow> 'a list settled" where
  "catch_empty (Fulfilled v) = Fulfilled v"
| "catch_empty Rejected = Fulfilled []"

record EmbyItem =
  Id :: string
  Name :: string
  Type :: string
  ProductionYear :: "int option"
  Overview :: "string option"
  ParentIndexNumber :: "int option"
  IndexNumber :: "int option"

text \<open>
  The external collaborators of the route: the client's \<open>getItems\<close> (by search term)
  and \<open>getImageUrl\<close>, \<open>searchFromApi\<close> for a generic API site (the site type is left
  open), the word list of module \<open>yellow\<close>, and \<open>getCacheTime()\<close>.
\<close>

record 'site search_env =
  getItems :: "EmbyClient \<Rightarrow> string \<Rightarrow> EmbyItem list outcome"
  getImageUrl :: "EmbyClient \<Rightarrow> string \<Rightarrow> string"
  searchFromApi :: "'site \<Rightarrow> string \<Rightarrow> SearchResult list outcome"
  yellowWords :: "string list"
  cacheTime :: int

text \<open>The two type labels of an Emby hit, as UTF-8 bytes (movie; TV series).\<close>

definition type_movie :: string where
  "type_movie = [CHR 0xE7, CHR 0x94, CHR 0xB5, CHR 0xE5, CHR 0xBD, CHR 0xB1]"

definition type_series :: string where
  "type_series = [CHR 0xE7, CHR 0x94, CHR 0xB5, CHR 0xE8, CHR 0xA7, CHR 0x86,
                  CHR 0xE5, CHR 0x89, CHR 0xA7]"

definition yearString :: "int option \<Rightarrow> string" where
  "yearString y = (case y of None \<Rightarrow> [] | Some n \<Rightarrow> toString n)"

definition embyHit ::
  "'site search_env \<Rightarrow> EmbyClient \<Rightarrow> string \<Rightarrow> string \<Rightarrow> EmbyItem \<Rightarrow> SearchResult" where
  "embyHit env client sourceValue sourceName item =
     \<lparr> result_id = Id item,
       source = sourceValue,
       source_name = sourceName,
       title = Name item,
       poster = getImageUrl env client (Id item),
       episodes = [],
       episodes_titles = [],
       year = yearString (ProductionYear item),
       desc = or_empty (Overview item),
       type_name = Some (if Type item = ''Movie'' then type_movie else type_series),
       douban_id = 0,
       subtitles = None,
       proxyMode = None \<rparr>"

text \<open>
  The body of one Emby search task (the \<open>async\<close> arrow with its \<open>try\<close>/\<open>catch\<close>);
  \<open>n\<close> is \<open>embySources.length\<close>.
\<close>

definition embyTask ::
  "'site search_env \<Rightarrow> string \<Rightarrow> nat \<Rightarrow> EmbyClient \<times> EmbySourceConfig
     \<Rightarrow> SearchResult list outcome" where
  "embyTask env query n ce =
     (case ce of (client, embyConfig) \<Rightarrow>
        (case getItems env client query of
           Returns items \<Rightarrow>
             (let sourceValue = (if n = 1 then ''emby'' else ''emby_'' @ key embyConfig);
                  sourceName = (if n = 1 then ''Emby'' else name embyConfig)
              in Returns (map (embyHit env client sourceValue sourceName) items))
         | Throws \<Rightarrow> Returns []
         | Hangs \<Rightarrow> Hangs))"

definition embyPromises ::
  "'site search_env \<Rightarrow> string \<Rightarrow> (EmbyClient \<times> EmbySourceConfig) list
     \<Rightarrow> SearchResult list settled list" where
  "embyPromises env query embySources =
     map (\<lambda>ce. catch_empty (race (embyTask env query (length embySources) ce))) embySources"

definition searchPromises ::
  "'site search_env \<Rightarrow> string \<Rightarrow> 'site list \<Rightarrow> SearchResult list settled list" where
  "searchPromises env query apiSites =
     map (\<lambda>site. catch_empty (race (searchFromApi env site query))) apiSites"

text \<open>
  \<open>results.filter(r => r.status === 'fulfilled').map(r => r.value)\<close> after
  \<open>Promise.allSettled\<close>, which keeps the order of the promises it is given.
\<close>

fun successResults :: "'a settled list \<Rightarrow> 'a list" where
  "successResults [] = []"
| "successResults (Fulfilled v # rs) = v # successResults rs"
| "successResults (Rejected # rs) = successResults rs"

datatype search_body = ResultsBody "SearchResult list" | ErrorBody string

record search_response =
  status :: nat
  body :: search_body
  cache_max_age :: "int option"

text \<open>
  The handler. \<open>authInfo\<close> is the user name from the cookie, \<open>query\<close> the parameter
  \<open>q\<close>, \<open>apiSites\<close> what \<open>getAvailableApiSites\<close> returned. The local
  \<open>embyPromises'\<close> and \<open>searchPromises'\<close> are the handler's two arrays of promises;
  \<open>results\<close> is \<open>await Promise.allSettled(searchPromises)\<close>, so \<open>embyPromises'\<close> is built
  and not awaited. The response records its status, its body and the \<open>max-age\<close> of
  its cache headers when it has them; the bookkeeping of \<open>recordRequest\<close> is left out,
  and so is the 500 answer of the outer \<open>catch\<close>, which no call modelled here reaches.
\<close>

definition GET_search ::
  "'site search_env \<Rightarrow> string option \<Rightarrow> string option \<Rightarrow> AdminConfig \<Rightarrow> 'site list
     \<Rightarrow> EmbyManager \<Rightarrow> search_response \<times> EmbyManager" where
  "GET_search env authInfo query config apiSites m =
     (if \<not> truthy_str authInfo then
        (\<lparr> status = 401, body = ErrorBody ''Unauthorized'', cache_max_age = None \<rparr>, m)
      else if \<not> truthy_str query then
        (\<lparr> status = 200, body = ResultsBody [], cache_max_age = Some (cacheTime env) \<rparr>, m)
      else
        (case getAllClients config m of (embySourcesMap, m') \<Rightarrow>
           let embySources = map snd embySourcesMap;
               embyPromises' = embyPromises env (or_empty query) embySources;
               searchPromises' = searchPromises env (or_empty query) apiSites;
               results = searchPromises';
               flattenedResults = concat (successResults results);
               flattenedResults' =
                 yellowFilter (DisableYellowFilter config) (yellowWords env) flattenedResults
           in if flattenedResults' = [] then
                (\<lparr> status = 200, body = ResultsBody [], cache_max_age = None \<rparr>, m')
              else
                (\<lparr> status = 200, body = ResultsBody flattenedResults',
                   cache_max_age = Some (cacheTime env) \<rparr>, m')))"

section \<open>Detail of a series (\<open>getEmbyDetail\<close>)\<close>

text \<open>
  \<open>Array.prototype.sort(compare)\<close> is stable: elements that compare equal keep their
  order. Insertion from the right, each element placed before the first one it does not
  exceed, is such a sort; on elements for which \<open>compare\<close> is a consistent ordering
  every stable sort gives the same list. Where \<open>compare\<close> is not consistent on the
  elements, the engine's own algorithm decides the result and this function does not
  speak for it.
\<close>

fun insert_by :: "('a \<Rightarrow> 'a \<Rightarrow> int) \<Rightarrow> 'a \<Rightarrow> 'a list \<Rightarrow> 'a list" where
  "insert_by compare x [] = [x]"
| "insert_by compare x (y # ys) =
     (if compare x y \<le> 0 then x # y # ys else y # insert_by compare x ys)"

definition Array_sort :: "('a \<Rightarrow> 'a \<Rightarrow> int) \<Rightarrow> 'a list \<Rightarrow> 'a list" where
  "Array_sort compare xs = foldr (insert_by compare) xs []"

text \<open>
  The comparison callback of \<open>allEpisodes.sort\<close>. A missing index is \<open>undefined\<close>
  (\<open>None\<close>); an index sent as \<open>null\<close>, which \<open>!==\<close> tells apart from \<open>undefined\<close>, is not
  covered.
\<close>

definition episodeCompare :: "EmbyItem \<Rightarrow> EmbyItem \<Rightarrow> int" where
  "episodeCompare a b =
     (if ParentIndexNumber a \<noteq> ParentIndexNumber b
      then or0 (ParentIndexNumber a) - or0 (ParentIndexNumber b)
      else or0 (IndexNumber a) - or0 (IndexNumber b))"

text \<open>\<open>n.toString().padStart(2, '0')\<close> and the episode label.\<close>

definition padStart2 :: "string \<Rightarrow> string" where
  "padStart2 s = replicate (2 - length s) CHR ''0'' @ s"

definition episodeTitle :: "EmbyItem \<Rightarrow> string" where
  "episodeTitle ep =
     (let seasonNum = or1 (ParentIndexNumber ep);
          episodeNum = or1 (IndexNumber ep)
      in ''S'' @ padStart2 (toString seasonNum) @ ''E'' @ padStart2 (toString episodeNum))"

text \<open>
  The client's calls are external: each either throws or returns. \<open>getEpisodes\<close> gets
  the series id and the season id.
\<close>

record detail_env =
  getItem :: "EmbyClient \<Rightarrow> string \<Rightarrow> error + EmbyItem"
  getSeasons :: "EmbyClient \<Rightarrow> string \<Rightarrow> error + EmbyItem list"
  getEpisodes :: "EmbyClient \<Rightarrow> string \<Rightarrow> string \<Rightarrow> error + EmbyItem list"
  getStreamUrl :: "EmbyClient \<Rightarrow> string \<Rightarrow> error + string"
  getSubtitles :: "EmbyClient \<Rightarrow> EmbyItem \<Rightarrow> string list"
  getImageUrl' :: "EmbyClient \<Rightarrow> string \<Rightarrow> string"

text \<open>The \<open>for\<close> loop over the seasons; the first failing call ends it.\<close>

fun collectEpisodes ::
  "detail_env \<Rightarrow> EmbyClient \<Rightarrow> string \<Rightarrow> EmbyItem list \<Rightarrow> EmbyItem list
     \<Rightarrow> error + EmbyItem list" where
  "collectEpisodes env client itemId [] allEpisodes = Inr allEpisodes"
| "collectEpisodes env client itemId (season # seasons) allEpisodes =
     (case getEpisodes env client itemId (Id season) of
        Inl e \<Rightarrow> Inl e
      | Inr eps \<Rightarrow> collectEpisodes env client itemId seasons (allEpisodes @ eps))"

text \<open>\<open>Promise.all(allEpisodes.map(ep => client.getStreamUrl(ep.Id)))\<close>.\<close>

fun streamUrls :: "detail_env \<Rightarrow> EmbyClient \<Rightarrow> EmbyItem list \<Rightarrow> error + string list" where
  "streamUrls env client [] = Inr []"
| "streamUrls env client (ep # eps) =
     (case getStreamUrl env client (Id ep) of
        Inl e \<Rightarrow> Inl e
      | Inr url \<Rightarrow>
          (case streamUrls env client eps of
             Inl e \<Rightarrow> Inl e
           | Inr urls \<Rightarrow> Inr (url # urls)))"

definition sortEpisodes :: "EmbyItem list \<Rightarrow> EmbyItem list" where
  "sortEpisodes allEpisodes = Array_sort episodeCompare allEpisodes"

text \<open>
  The guard that the detail function and the play proxy share:
  \<open>!config.EmbyConfig?.Sources || config.EmbyConfig.Sources.length === 0\<close>.
\<close>

definition noSources :: "AdminConfig \<Rightarrow> bool" where
  "noSources config =
     (case EmbyConfig config of
        None \<Rightarrow> True
      | Some ec \<Rightarrow> (case Sources ec of None \<Rightarrow> True | Some ss \<Rightarrow> ss = []))"

definition parseEmbyKey :: "string \<Rightarrow> string option" where
  "parseEmbyKey src = (if startsWith src ''emby_'' then Some (drop 5 src) else None)"

text \<open>\<open>sources.find(s => s.key === embyKey)?.name || 'Emby'\<close> over the enabled sources.\<close>

definition sourceNameOf :: "AdminConfig \<Rightarrow> string option \<Rightarrow> string" where
  "sourceNameOf config embyKey =
     (case embyKey of
        None \<Rightarrow> ''Emby''
      | Some k \<Rightarrow>
          (case find (hasKey k) (getEnabledSources config) of
             None \<Rightarrow> ''Emby''
           | Some sourceConfig \<Rightarrow>
               if name sourceConfig \<noteq> [] then name sourceConfig else ''Emby''))"

definition movieDetail ::
  "detail_env \<Rightarrow> EmbyClient \<Rightarrow> string \<Rightarrow> string \<Rightarrow> EmbyItem \<Rightarrow> error + SearchResult" where
  "movieDetail env client src sourceName item =
     (let subs = getSubtitles env client item in
      case getStreamUrl env client (Id item) of
        Inl e \<Rightarrow> Inl e
      | Inr url \<Rightarrow>
          Inr \<lparr> result_id = Id item,
                source = src,
                source_name = sourceName,
                title = Name item,
                poster = getImageUrl' env client (Id item),
                episodes = [url],
                episodes_titles = [Name item],
                year = yearString (ProductionYear item),
                desc = or_empty (Overview item),
                type_name = None,
                douban_id = 0,
                subtitles = Some (if subs \<noteq> [] then [subs] else []),
                proxyMode = Some False \<rparr>)"

definition seriesDetail ::
  "detail_env \<Rightarrow> EmbyClient \<Rightarrow> string \<Rightarrow> string \<Rightarrow> EmbyItem \<Rightarrow> error + SearchResult" where
  "seriesDetail env client src sourceName item =
     (case getSeasons env client (Id item) of
        Inl e \<Rightarrow> Inl e
      | Inr seasons \<Rightarrow>
          (case collectEpisodes env client (Id item) seasons [] of
             Inl e \<Rightarrow> Inl e
           | Inr fetched \<Rightarrow>
               (let allEpisodes = sortEpisodes fetched in
                case streamUrls env client allEpisodes of
                  Inl e \<Rightarrow> Inl e
                | Inr urls \<Rightarrow>
                    Inr \<lparr> result_id = Id item,
                          source = src,
                          source_name = sourceName,
                          title = Name item,
                          poster = getImageUrl' env client (Id item),
                          episodes = urls,
                          episodes_titles = map episodeTitle allEpisodes,
                          year = yearString (ProductionYear item),
                          desc = or_empty (Overview item),
                          type_name = None,
                          douban_id = 0,
                          subtitles = Some (map (getSubtitles env client) allEpisodes),
                          proxyMode = Some False \<rparr>)))"

definition getEmbyDetail ::
  "detail_env \<Rightarrow> string \<Rightarrow> string \<Rightarrow> AdminConfig \<Rightarrow> EmbyManager
     \<Rightarrow> (error + SearchResult) \<times> EmbyManager" where
  "getEmbyDetail env src itemId config m =
     (if noSources config then (Inl EmbyNotConfigured, m)
      else
        let embyKey = parseEmbyKey src;
            sourceName = sourceNameOf config embyKey
        in (case getClient embyKey config m of
              (Inl e, m') \<Rightarrow> (Inl e, m')
            | (Inr client, m') \<Rightarrow>
                (case getItem env client itemId of
                   Inl e \<Rightarrow> (Inl e, m')
                 | Inr item \<Rightarrow>
                     if Type item = ''Movie'' then (movieDetail env client src sourceName item, m')
                     else if Type item = ''Series''
                       then (seriesDetail env client src sourceName item, m')
                     else (Inl UnsupportedMediaType, m'))))"

section \<open>Play proxy (route \<open>/api/emby/play\<close>)\<close>

record fetch_response =
  resp_status :: nat
  content_type :: "string option"
  content_length :: "string option"
  accept_ranges :: "string option"
  content_range :: "string option"

text \<open>
  The outside of the proxy: the client's \<open>getStreamUrl(itemId, true, true)\<close> and the
  upstream server. \<open>upstream n url rangeHeader\<close> is what the \<open>n\<close>-th call of \<open>fetch\<close> made by
  the handler (counting from 0) gets for that URL and \<open>Range\<close> header: a response, or a
  thrown network error.
\<close>

record play_env =
  streamUrl :: "EmbyClient \<Rightarrow> string \<Rightarrow> error + string"
  upstream :: "nat \<Rightarrow> string \<Rightarrow> string option \<Rightarrow> error + fetch_response"

text \<open>The handler's state: the manager and the URLs fetched so far, latest first.\<close>

record play_state =
  manager :: EmbyManager
  fetched :: "string list"

definition fetch ::
  "play_env \<Rightarrow> string \<Rightarrow> string option \<Rightarrow> play_state
     \<Rightarrow> (error + fetch_response) \<times> play_state" where
  "fetch env url rangeHeader st =
     (upstream env (length (fetched st)) url rangeHeader, st \<lparr> fetched := url # fetched st \<rparr>)"

definition getEmbyClient ::
  "string option \<Rightarrow> AdminConfig \<Rightarrow> EmbyManager \<Rightarrow> (error + EmbyClient) \<times> EmbyManager" where
  "getEmbyClient embyKey config m =
     (if noSources config then (Inl EmbyNotConfigured, m) else getClient embyKey config m)"

text \<open>\<open>response.ok\<close>: a status from 200 to 299.\<close>

definition ok :: "fetch_response \<Rightarrow> bool" where
  "ok r = (200 \<le> resp_status r \<and> resp_status r \<le> 299)"

datatype play_body =
    Unauthorized            \<comment> \<open>401, no valid token and no login\<close>
  | MissingItemId           \<comment> \<open>400, parameter itemId missing\<close>
  | StreamFailed            \<comment> \<open>500, the upstream response is not ok\<close>
  | PlayFailed error        \<comment> \<open>500, an exception reached the outer catch\<close>
  | Stream fetch_response   \<comment> \<open>the upstream body, streamed through\<close>

record play_response =
  play_status :: nat
  play_body :: play_body
  play_content_type :: "string option"

text \<open>Lines 118 to 160: what is answered for the last upstream response.\<close>

definition respond :: "fetch_response \<Rightarrow> play_response" where
  "respond videoResponse =
     (if \<not> ok videoResponse then
        \<lparr> play_status = 500, play_body = StreamFailed, play_content_type = None \<rparr>
      else
        \<lparr> play_status = resp_status videoResponse,
          play_body = Stream videoResponse,
          play_content_type =
            Some (if truthy_str (content_type videoResponse)
                  then or_empty (content_type videoResponse) else ''video/mp4'') \<rparr>)"

definition failed :: "error \<Rightarrow> play_response" where
  "failed e = \<lparr> play_status = 500, play_body = PlayFailed e, play_content_type = None \<rparr>"

text \<open>Lines 89 to 104 and again 111 to 115: resolve the client, build the URL, fetch.\<close>

definition resolve_and_fetch ::
  "play_env \<Rightarrow> string \<Rightarrow> string option \<Rightarrow> string option \<Rightarrow> AdminConfig \<Rightarrow> play_state
     \<Rightarrow> (error + fetch_response) \<times> play_state" where
  "resolve_and_fetch env itemId embyKey rangeHeader config st =
     (case getEmbyClient embyKey config (manager st) of
        (Inl e, m') \<Rightarrow> (Inl e, st \<lparr> manager := m' \<rparr>)
      | (Inr client, m') \<Rightarrow>
          (case streamUrl env client itemId of
             Inl e \<Rightarrow> (Inl e, st \<lparr> manager := m' \<rparr>)
           | Inr embyStreamUrl \<Rightarrow> fetch env embyStreamUrl rangeHeader (st \<lparr> manager := m' \<rparr>)))"

text \<open>
  The handler. \<open>hasValidToken\<close> and \<open>hasValidAuth\<close> are the two checks on the request,
  \<open>itemId\<close> and \<open>embyKey\<close> the query parameters (\<open>embyKey\<close> already \<open>|| undefined\<close>),
  \<open>rangeHeader\<close> the request's \<open>Range\<close> header.
\<close>

definition GET_play ::
  "play_env \<Rightarrow> bool \<Rightarrow> bool \<Rightarrow> string option \<Rightarrow> string option \<Rightarrow> string option
     \<Rightarrow> AdminConfig \<Rightarrow> play_state \<Rightarrow> play_response \<times> play_state" where
  "GET_play env hasValidToken hasValidAuth itemId embyKey rangeHeader config st =
     (if \<not> hasValidToken \<and> \<not> hasValidAuth then
        (\<lparr> play_status = 401, play_body = Unauthorized, play_content_type = None \<rparr>, st)
      else if \<not> truthy_str itemId then
        (\<lparr> play_status = 400, play_body = MissingItemId, play_content_type = None \<rparr>, st)
      else
        (case resolve_and_fetch env (or_empty itemId) embyKey rangeHeader config st of
           (Inl e, st1) \<Rightarrow> (failed e, st1)
         | (Inr videoResponse, st1) \<Rightarrow>
             if resp_status videoResponse = 401 then
               (case resolve_and_fetch env (or_empty itemId) embyKey rangeHeader config
                       (st1 \<lparr> manager := clearCache (manager st1) \<rparr>) of
                  (Inl e, st2) \<Rightarrow> (failed e, st2)
                | (Inr videoResponse2, st2) \<Rightarrow> (respond videoResponse2, st2))
             else (respond videoResponse, st1)))"

section \<open>Example inputs\<close>

definition mkSource :: "string \<Rightarrow> string \<Rightarrow> bool \<Rightarrow> bool option \<Rightarrow> EmbySourceConfig" where
  "mkSource k n en dflt =
     \<lparr> key = k, name = n, enabled = en, ServerURL = ''http://emby.local:8096'',
       ApiKey = Some ''secret'', Username = None, Password = None, UserId = None,
       AuthToken = None, Libraries = None, LastSyncTime = None, ItemCount = None,
       isDefault = dflt, removeEmbyPrefix = None, appendMediaSourceId = None,
       transcodeMp4 = None, proxyPlay = None \<rparr>"

definition modernConfig :: "EmbySourceConfig list \<Rightarrow> AdminConfig" where
  "modernConfig ss =
     \<lparr> EmbyConfig = Some
         \<lparr> Sources = Some ss, Enabled = None, ServerURL' = None, ApiKey' = None,
           Username' = None, Password' = None, UserId' = None, AuthToken' = None,
           Libraries' = None, LastSyncTime' = None, ItemCount' = None \<rparr>,
       DisableYellowFilter = False \<rparr>"

definition legacyEmbyConfig :: EmbyConfigT where
  "legacyEmbyConfig =
     \<lparr> Sources = None, Enabled = Some True, ServerURL' = Some ''http://old.local:8096'',
       ApiKey' = Some ''oldkey'', Username' = Some ''admin'', Password' = None,
       UserId' = Some ''u1'', AuthToken' = None, Libraries' = Some [''lib1''],
       LastSyncTime' = Some 1700000000000, ItemCount' = Some 42 \<rparr>"

definition legacyConfig :: AdminConfig where
  "legacyConfig = \<lparr> EmbyConfig = Some legacyEmbyConfig, DisableYellowFilter = False \<rparr>"

definition noEmbyConfig :: AdminConfig where
  "noEmbyConfig = \<lparr> EmbyConfig = None, DisableYellowFilter = False \<rparr>"

definition manager0 :: EmbyManager where
  "manager0 = \<lparr> clients = Map.empty, constructed = [] \<rparr>"

definition cfgAB :: AdminConfig where
  "cfgAB = modernConfig [mkSource ''a'' ''A'' False None, mkSource ''b'' ''B'' True None]"

definition cfgTwo :: AdminConfig where
  "cfgTwo = modernConfig [mkSource ''a'' ''A'' True None, mkSource ''b'' ''B'' True None]"

definition cfgOne :: AdminConfig where
  "cfgOne = modernConfig [mkSource ''a'' ''A'' True None]"

definition threeCalls :: "(AdminConfig \<times> manager_op) list" where
  "threeCalls =
     [(cfgTwo, GetClient (Some ''a'')), (cfgTwo, GetAllClients), (cfgTwo, GetClient None)]"

definition mkResult :: "string \<Rightarrow> string \<Rightarrow> string option \<Rightarrow> SearchResult" where
  "mkResult i src tn =
     \<lparr> result_id = i, source = src, source_name = src, title = ''t'' @ i, poster = [],
       episodes = [], episodes_titles = [], year = ''2024'', desc = [], type_name = tn,
       douban_id = 0, subtitles = None, proxyMode = None \<rparr>"

definition demoItem :: EmbyItem where
  "demoItem =
     \<lparr> Id = ''i1'', Name = ''Some Film'', Type = ''Movie'', ProductionYear = Some 2021,
       Overview = None, ParentIndexNumber = None, IndexNumber = None \<rparr>"

text \<open>
  Every Emby server answers with one film; API site 0 answers with two hits, site 1
  throws, every other site hangs.
\<close>

definition demoEnv :: "nat search_env" where
  "demoEnv =
     \<lparr> getItems = (\<lambda>client q. Returns [demoItem]),
       getImageUrl = (\<lambda>client i. ''/img/'' @ i),
       searchFromApi =
         (\<lambda>site q. if site = 0
                    then Returns [mkResult ''1'' ''s0'' (Some ''drama''),
                                  mkResult ''2'' ''s0'' (Some ''xxx film'')]
                    else if site = 1 then Throws else Hangs),
       yellowWords = [''xxx''],
       cacheTime = 7200 \<rparr>"

definition mkEpisode :: "string \<Rightarrow> int option \<Rightarrow> int option \<Rightarrow> EmbyItem" where
  "mkEpisode i p n =
     \<lparr> Id = i, Name = ''Episode '' @ i, Type = ''Episode'', ProductionYear = None,
       Overview = None, ParentIndexNumber = p, IndexNumber = n \<rparr>"

definition demoSeries :: EmbyItem where
  "demoSeries =
     \<lparr> Id = ''s1'', Name = ''Some Show'', Type = ''Series'', ProductionYear = Some 2020,
       Overview = None, ParentIndexNumber = None, IndexNumber = None \<rparr>"

text \<open>
  A series with one season folder holding two episodes: the first without a season
  number (episode 5), the second in season 0 (episode 1).
\<close>

definition demoDetailEnv :: detail_env where
  "demoDetailEnv =
     \<lparr> getItem = (\<lambda>client i. Inr demoSeries),
       getSeasons = (\<lambda>client i. Inr [mkEpisode ''season'' None None]),
       getEpisodes =
         (\<lambda>client i s. Inr [mkEpisode ''x5'' None (Some 5), mkEpisode ''x1'' (Some 0) (Some 1)]),
       getStreamUrl = (\<lambda>client i. Inr (''/play/'' @ i)),
       getSubtitles = (\<lambda>client ep. []),
       getImageUrl' = (\<lambda>client i. ''/img/'' @ i) \<rparr>"

definition mkResponse :: "nat \<Rightarrow> fetch_response" where
  "mkResponse n =
     \<lparr> resp_status = n, content_type = Some ''video/x-matroska'', content_length = None,
       accept_ranges = Some ''bytes'', content_range = None \<rparr>"

text \<open>
  Two upstream servers: one answers 401 to the first fetch and 206 afterwards (a
  session that had expired), the other answers 401 to every fetch.
\<close>

definition expiredOnceEnv :: play_env where
  "expiredOnceEnv =
     \<lparr> streamUrl = (\<lambda>client i. Inr (''http://emby.local:8096/Videos/'' @ i)),
       upstream = (\<lambda>n url rangeHeader. if n = 0 then Inr (mkResponse 401)
                                         else Inr (mkResponse 206)) \<rparr>"

definition alwaysDeniedEnv :: play_env where
  "alwaysDeniedEnv =
     \<lparr> streamUrl = (\<lambda>client i. Inr (''http://emby.local:8096/Videos/'' @ i)),
       upstream = (\<lambda>n url rangeHeader. Inr (mkResponse 401)) \<rparr>"

definition play0 :: play_state where
  "play0 = \<lparr> manager = manager0, fetched = [] \<rparr>"

text \<open>
  A third upstream server answers 401 to the first fetch and drops the connection of
  every later one. \<open>playCached\<close> is the state in which a client for \<open>a\<close> is cached from
  the time when \<open>a\<close> was enabled.
\<close>

definition retryThrowsEnv :: play_env where
  "retryThrowsEnv =
     \<lparr> streamUrl = (\<lambda>client i. Inr (''http://emby.local:8096/Videos/'' @ i)),
       upstream = (\<lambda>n url rangeHeader. if n = 0 then Inr (mkResponse 401)
                                         else Inl (ExternalError ''connection reset'')) \<rparr>"

definition playCached :: play_state where
  "playCached = \<lparr> manager = snd (getClient (Some ''a'') cfgTwo manager0), fetched = [] \<rparr>"

section \<open>Proof vocabulary\<close>

text \<open>
  \<open>grows m m'\<close>: from \<open>m\<close> to \<open>m'\<close> the manager made constructor calls only for keys
  that had no cached client, one call per key, and kept every client it had.
\<close>

definition grows :: "EmbyManager \<Rightarrow> EmbyManager \<Rightarrow> bool" where
  "grows m m' =
     (\<exists>new. constructed m' = new @ constructed m \<and> distinct new \<and>
            set new \<inter> dom (clients m) = {} \<and>
            dom (clients m') = dom (clients m) \<union> set new \<and>
            (\<forall>k h. clients m k = Some h \<longrightarrow> clients m' k = Some h))"

text \<open>
  \<open>agrees r m\<close>: every entry of a \<open>getAllClients\<close> result holds the client that the
  cache has under the entry's key.
\<close>

definition agrees :: "(string \<times> EmbyClient \<times> EmbySourceConfig) list \<Rightarrow> EmbyManager \<Rightarrow> bool" where
  "agrees r m = (\<forall>k c s. map_of r k = Some (c, s) \<longrightarrow> clients m k = Some c)"

text \<open>
  \<open>unambiguous S\<close>: no episode of \<open>S\<close> lacks a season index while another has season
  index 0.
\<close>

definition unambiguous :: "EmbyItem set \<Rightarrow> bool" where
  "unambiguous S =
     (\<not> (\<exists>a \<in> S. \<exists>b \<in> S. ParentIndexNumber a = None \<and> ParentIndexNumber b = Some 0))"

text \<open>
  The order the specification asks of the episode list: by season index, then by
  episode index, a missing index counting as 0.
\<close>

definition seasonEpisodeLe :: "EmbyItem \<Rightarrow> EmbyItem \<Rightarrow> bool" where
  "seasonEpisodeLe a b =
     (or0 (ParentIndexNumber a) < or0 (ParentIndexNumber b) \<or>
      (or0 (ParentIndexNumber a) = or0 (ParentIndexNumber b) \<and>
       or0 (IndexNumber a) \<le> or0 (IndexNumber b)))"

section \<open>Verified properties\<close>

text \<open>Facts for evaluating the example inputs.\<close>

lemma mkSource_sel:
  "key (mkSource k n e d) = k" "name (mkSource k n e d) = n"
  "enabled (mkSource k n e d) = e" "isDefault (mkSource k n e d) = d"
  by (simp_all add: mkSource_def)

lemmas fx =
  cfgAB_def cfgTwo_def cfgOne_def modernConfig_def mkSource_sel manager0_def noEmbyConfig_def

lemmas mg =
  getSources_def getClient_def isDefaultSource_def truthy_bool_def truthy_str_def or_empty_def
  hasKey_def construct_def newClient_def getAllClients_def getAllClients_step_def
  getEnabledSources_def clearCache_def run_def Let_def

lemma mkResult_sel:
  "type_name (mkResult i s tn) = tn" "source (mkResult i s tn) = s" "result_id (mkResult i s tn) = i"
  by (simp_all add: mkResult_def)

lemmas sr =
  GET_search_def searchPromises_def embyPromises_def embyTask_def embyHit_def
  yellowFilter_def survives_def demoEnv_def mkResult_sel

subsection \<open>Reading the sources from either configuration shape\<close>

text \<open>
  Claim C7. When the configuration has the \<open>Sources\<close> array, \<open>getSources\<close> returns that
  array as it is. When it has no \<open>Sources\<close> but a non-empty legacy \<open>ServerURL\<close>, the
  list is exactly one source, with key \<open>default\<close>, name \<open>Emby\<close>, \<open>isDefault = true\<close>,
  \<open>enabled\<close> taken from the legacy \<open>Enabled\<close> flag (absent counts as false) and every
  legacy connection field carried over. When neither shape is present (no \<open>EmbyConfig\<close>,
  or no \<open>Sources\<close> and an absent or empty \<open>ServerURL\<close>) the list is empty.
\<close>

theorem getSources_dual_format:
  "(\<forall>ec ss. EmbyConfig config = Some ec \<and> Sources ec = Some ss \<longrightarrow> getSources config = ss) \<and>
   (\<forall>ec url. EmbyConfig config = Some ec \<and> Sources ec = None \<and>
        ServerURL' ec = Some url \<and> url \<noteq> [] \<longrightarrow>
      (\<exists>s. getSources config = [s] \<and> isDefault s = Some True \<and> key s = ''default'' \<and>
           name s = ''Emby'' \<and> enabled s = (Enabled ec = Some True) \<and>
           ServerURL s = url \<and> ApiKey s = ApiKey' ec \<and> Username s = Username' ec \<and>
           Password s = Password' ec \<and> UserId s = UserId' ec \<and> AuthToken s = AuthToken' ec \<and>
           Libraries s = Libraries' ec \<and> LastSyncTime s = LastSyncTime' ec \<and>
           ItemCount s = ItemCount' ec)) \<and>
   ((EmbyConfig config = None \<or>
     (\<exists>ec. EmbyConfig config = Some ec \<and> Sources ec = None \<and> \<not> truthy_str (ServerURL' ec)))
      \<longrightarrow> getSources config = [])"
  by (auto simp: getSources_def legacySource_def truthy_str_def split: option.splits)

theorem getSources_dual_format_witness:
  "getSources (modernConfig [mkSource ''a'' ''A'' True None, mkSource ''b'' ''B'' False None])
     = [mkSource ''a'' ''A'' True None, mkSource ''b'' ''B'' False None] \<and>
   map isDefault (getSources legacyConfig) = [Some True] \<and>
   map ServerURL (getSources legacyConfig) = [''http://old.local:8096''] \<and>
   map ApiKey (getSources legacyConfig) = [Some ''oldkey''] \<and>
   map enabled (getSources legacyConfig) = [True] \<and>
   getSources noEmbyConfig = []"
proof -
  let ?ss = "[mkSource ''a'' ''A'' True None, mkSource ''b'' ''B'' False None]"
  have modern: "getSources (modernConfig ?ss) = ?ss"
    using getSources_dual_format [of "modernConfig ?ss"] by (simp add: modernConfig_def)
  have h: "EmbyConfig legacyConfig = Some legacyEmbyConfig \<and> Sources legacyEmbyConfig = None \<and>
           ServerURL' legacyEmbyConfig = Some ''http://old.local:8096'' \<and>
           ''http://old.local:8096'' \<noteq> []"
    by (simp add: legacyConfig_def legacyEmbyConfig_def)
  with getSources_dual_format [of legacyConfig]
  obtain s where "getSources legacyConfig = [s]" "isDefault s = Some True"
      "ServerURL s = ''http://old.local:8096''" "ApiKey s = ApiKey' legacyEmbyConfig"
      "enabled s = (Enabled legacyEmbyConfig = Some True)"
    by blast
  then have legacy:
    "map isDefault (getSources legacyConfig) = [Some True] \<and>
     map ServerURL (getSources legacyConfig) = [''http://old.local:8096''] \<and>
     map ApiKey (getSources legacyConfig) = [Some ''oldkey''] \<and>
     map enabled (getSources legacyConfig) = [True]"
    by (simp add: legacyEmbyConfig_def)
  have neither: "getSources noEmbyConfig = []"
    using getSources_dual_format [of noEmbyConfig] by (simp add: noEmbyConfig_def)
  from modern legacy neither show ?thesis by simp
qed

text \<open>
  \<open>migrateEmbyConfig\<close> agrees with that reading: the migrated configuration lists the
  same sources, the legacy one with the four streaming options set to false.
\<close>

lemma migrate_getSources:
  "getSources (migrateEmbyConfig config) =
     (case EmbyConfig config of
        None \<Rightarrow> []
      | Some ec \<Rightarrow>
          (case Sources ec of
             Some ss \<Rightarrow> ss
           | None \<Rightarrow>
               map (\<lambda>s. s \<lparr> removeEmbyPrefix := Some False, appendMediaSourceId := Some False,
                            transcodeMp4 := Some False, proxyPlay := Some False \<rparr>)
                 (getSources config)))"
  by (auto simp: getSources_def migrateEmbyConfig_def truthy_str_def or_empty_def
           split: option.splits)

subsection \<open>The manager's cache only grows between two clears\<close>

lemma grows_refl: "grows m m"
  by (auto simp: grows_def)

lemma grows_construct: "clients m k = None \<Longrightarrow> grows m (construct k s m)"
  unfolding grows_def construct_def
  by (rule exI [of _ "[k]"]) (auto simp: dom_def)

lemma grows_trans:
  assumes "grows m m'" and "grows m' m''"
  shows "grows m m''"
proof -
  from assms(1) obtain n1 where n1: "constructed m' = n1 @ constructed m" "distinct n1"
      "set n1 \<inter> dom (clients m) = {}" "dom (clients m') = dom (clients m) \<union> set n1"
      "\<forall>k h. clients m k = Some h \<longrightarrow> clients m' k = Some h"
    unfolding grows_def by blast
  from assms(2) obtain n2 where n2: "constructed m'' = n2 @ constructed m'" "distinct n2"
      "set n2 \<inter> dom (clients m') = {}" "dom (clients m'') = dom (clients m') \<union> set n2"
      "\<forall>k h. clients m' k = Some h \<longrightarrow> clients m'' k = Some h"
    unfolding grows_def by blast
  have "constructed m'' = (n2 @ n1) @ constructed m"
    using n1(1) n2(1) by simp
  moreover have "distinct (n2 @ n1)"
    using n1(2,4) n2(2,3) by auto
  moreover have "set (n2 @ n1) \<inter> dom (clients m) = {}"
    using n1(3,4) n2(3) by auto
  moreover have "dom (clients m'') = dom (clients m) \<union> set (n2 @ n1)"
    using n1(4) n2(4) by auto
  moreover have "\<forall>k h. clients m k = Some h \<longrightarrow> clients m'' k = Some h"
    using n1(5) n2(5) by blast
  ultimately show ?thesis
    unfolding grows_def by blast
qed

lemma grows_getClient: "grows m (snd (getClient k config m))"
  by (auto simp: getClient_def Let_def grows_refl grows_construct split: option.splits)

lemma grows_step: "grows m (snd (getAllClients_step s (r, m)))"
  by (auto simp: getAllClients_step_def grows_refl grows_construct split: option.splits)

lemma grows_fold_steps: "grows m (snd (fold getAllClients_step ss (r, m)))"
proof (induction ss arbitrary: r m)
  case Nil
  show ?case by (simp add: grows_refl)
next
  case (Cons s ss)
  obtain r' m' where st: "getAllClients_step s (r, m) = (r', m')"
    by (cases "getAllClients_step s (r, m)")
  have "grows m m'"
    using grows_step [of m s r] st by simp
  moreover have "grows m' (snd (fold getAllClients_step ss (r', m')))"
    by (rule Cons.IH)
  ultimately show ?case
    using st by (simp add: grows_trans)
qed

lemma grows_getAllClients: "grows m (snd (getAllClients config m))"
  by (simp add: getAllClients_def grows_fold_steps)

lemma grows_run: "\<not> list_ex is_clear ops \<Longrightarrow> grows m (run ops m)"
proof (induction ops arbitrary: m)
  case Nil
  show ?case by (simp add: run_def grows_refl)
next
  case (Cons op ops)
  obtain config o' where op: "op = (config, o')"
    by (cases op)
  from Cons.prems op have nc: "o' \<noteq> ClearCache" "\<not> list_ex is_clear ops"
    by (cases o'; simp)+
  have "grows m (exec_op op m)"
    using nc(1) op by (cases o') (simp_all add: grows_getClient grows_getAllClients)
  moreover have "grows (exec_op op m) (run ops (exec_op op m))"
    by (rule Cons.IH [OF nc(2)])
  ultimately show ?case
    by (auto simp: run_def intro: grows_trans)
qed

subsection \<open>What \<open>getAllClients\<close> hands out\<close>

lemma agrees_step:
  assumes "agrees r m"
  shows "agrees (fst (getAllClients_step s (r, m))) (snd (getAllClients_step s (r, m)))"
  using assms
  by (auto simp: getAllClients_step_def agrees_def update_conv' construct_def
           split: option.splits)

lemma agrees_fold:
  "agrees r m \<Longrightarrow>
   agrees (fst (fold getAllClients_step ss (r, m))) (snd (fold getAllClients_step ss (r, m)))"
proof (induction ss arbitrary: r m)
  case Nil
  then show ?case by simp
next
  case (Cons s ss)
  obtain r' m' where st: "getAllClients_step s (r, m) = (r', m')"
    by (cases "getAllClients_step s (r, m)")
  have "agrees r' m'"
    using agrees_step [OF Cons.prems, of s] st by simp
  from Cons.IH [OF this] show ?case
    using st by simp
qed

lemma agrees_getAllClients:
  "agrees (fst (getAllClients config m)) (snd (getAllClients config m))"
  unfolding getAllClients_def by (rule agrees_fold) (simp add: agrees_def)

lemma dom_step:
  "dom (map_of (fst (getAllClients_step s (r, m)))) = insert (key s) (dom (map_of r))"
  by (auto simp: getAllClients_step_def update_conv' split: option.splits)

lemma dom_fold:
  "dom (map_of (fst (fold getAllClients_step ss (r, m)))) = dom (map_of r) \<union> key ` set ss"
proof (induction ss arbitrary: r m)
  case Nil
  show ?case by simp
next
  case (Cons s ss)
  obtain r' m' where st: "getAllClients_step s (r, m) = (r', m')"
    by (cases "getAllClients_step s (r, m)")
  have "dom (map_of r') = insert (key s) (dom (map_of r))"
    using dom_step [of s r m] st by simp
  with Cons.IH [of r' m'] show ?case
    using st by auto
qed

lemma dom_getAllClients:
  "dom (map_of (fst (getAllClients config m))) = key ` set (getEnabledSources config)"
  by (simp add: getAllClients_def getEnabledSources_def dom_fold)

subsection \<open>Resolving a client handle\<close>

text \<open>
  Claim C2, as the code has it. \<open>getClient\<close> fails with the not-configured error when
  there is no source. Otherwise the key it resolves is the given key when that is
  non-empty; with the key omitted or empty it is the key of the first source flagged
  \<open>isDefault\<close>, and without such a source the key of the first configured source,
  enabled or not. A client cached under the resolved key is returned as it is, before
  the configuration is looked at. With nothing cached, the call fails with the
  not-found error when no source has the key, with the disabled error (carrying the
  source's name) when the first source with the key is disabled, and otherwise
  constructs a client from that source, caches it under the key and returns it.
\<close>

theorem getClient_resolution:
  assumes "getSources config = sources" and "resolveKey k sources = k'"
  shows
  "(sources = [] \<longrightarrow> getClient k config m = (Inl NoEmbySource, m)) \<and>
   (sources \<noteq> [] \<longrightarrow>
      (truthy_str k \<longrightarrow> k = Some k') \<and>
      (\<not> truthy_str k \<longrightarrow>
         (\<forall>d. find isDefaultSource sources = Some d \<longrightarrow> k' = key d) \<and>
         (find isDefaultSource sources = None \<longrightarrow> k' = key (hd sources))) \<and>
      (\<forall>c. clients m k' = Some c \<longrightarrow> getClient k config m = (Inr c, m)) \<and>
      (clients m k' = None \<longrightarrow>
         (find (hasKey k') sources = None \<longrightarrow>
            getClient k config m = (Inl (SourceNotFound k'), m)) \<and>
         (\<forall>s. find (hasKey k') sources = Some s \<and> \<not> enabled s \<longrightarrow>
            getClient k config m = (Inl (SourceDisabled (name s)), m)) \<and>
         (\<forall>s. find (hasKey k') sources = Some s \<and> enabled s \<longrightarrow>
            (\<exists>c. getClient k config m =
                   (Inr c, m \<lparr> clients := (clients m)(k' \<mapsto> c),
                                constructed := k' # constructed m \<rparr>) \<and>
                 client_config c = s \<and> client_id c = length (constructed m)))))"
proof (cases sources)
  case Nil
  with assms show ?thesis
    by (simp add: getClient_def)
next
  case (Cons s0 rest)
  with assms show ?thesis
    by (auto simp: getClient_def Let_def construct_def newClient_def truthy_str_def
                   or_empty_def
             split: option.splits)
qed

text \<open>
  The theorem at work: two enabled sources, no default flag, no key given, an empty
  cache. The first source is resolved and a first client is constructed for it.
\<close>

theorem getClient_resolution_witness:
  "fst (getClient None cfgTwo manager0) =
     Inr \<lparr> client_id = 0, client_config = mkSource ''a'' ''A'' True None \<rparr> \<and>
   clients (snd (getClient None cfgTwo manager0)) ''a'' =
     Some \<lparr> client_id = 0, client_config = mkSource ''a'' ''A'' True None \<rparr> \<and>
   constructed (snd (getClient None cfgTwo manager0)) = [''a'']"
proof -
  let ?ss = "[mkSource ''a'' ''A'' True None, mkSource ''b'' ''B'' True None]"
  have s: "getSources cfgTwo = ?ss"
    by (simp add: fx getSources_def)
  have k: "resolveKey None ?ss = ''a''"
    by (simp add: fx mg)
  have f: "find (hasKey ''a'') ?ss = Some (mkSource ''a'' ''A'' True None) \<and>
           enabled (mkSource ''a'' ''A'' True None)"
    by (simp add: fx mg)
  have c: "clients manager0 ''a'' = None"
    by (simp add: fx)
  from getClient_resolution [OF s k, of manager0] f c
  obtain c where "getClient None cfgTwo manager0 =
                   (Inr c, manager0 \<lparr> clients := (clients manager0)(''a'' \<mapsto> c),
                                       constructed := ''a'' # constructed manager0 \<rparr>)"
     "client_config c = mkSource ''a'' ''A'' True None"
     "client_id c = length (constructed manager0)"
    by auto
  then show ?thesis
    by (cases c) (simp add: manager0_def)
qed

text \<open>
  Claim C2 as the specification words it does not hold. First: the sources are a
  disabled \<open>a\<close> followed by an enabled \<open>b\<close>, none flagged default, so the first enabled
  instance is \<open>b\<close>; with the key omitted the call does not fall back to \<open>b\<close> but fails,
  \<open>a\<close> being disabled. Second: a client cached for \<open>a\<close> while \<open>a\<close> was enabled is still
  returned after \<open>a\<close> has been disabled, with no disabled error.
\<close>

theorem getClient_fallback_counterexample:
  "find isDefaultSource (getSources cfgAB) = None \<and>
   find enabled (getSources cfgAB) = Some (mkSource ''b'' ''B'' True None) \<and>
   getClient None cfgAB manager0 = (Inl (SourceDisabled ''A''), manager0) \<and>
   map enabled (filter (hasKey ''a'') (getSources cfgAB)) = [False] \<and>
   fst (getClient (Some ''a'') cfgAB (snd (getClient (Some ''a'') cfgTwo manager0))) =
     Inr \<lparr> client_id = 0, client_config = mkSource ''a'' ''A'' True None \<rparr>"
  by (simp add: fx mg)

subsection \<open>One client per key between two clears\<close>

text \<open>
  Claim C10, as the code has it. Over any history of \<open>getClient\<close> and
  \<open>getAllClients\<close> calls without a \<open>clearCache\<close>, under any configurations, the manager
  constructs at most one client per key, none for a key that already had one, and
  every cached client stays the cached client of its key. With a client cached under
  a non-empty key, \<open>getClient(key)\<close> returns that very client and changes nothing when
  the configuration has at least one source; when it has none, the call fails with the
  not-configured error, again without constructing. \<open>getAllClients\<close> never hands out
  another client for a cached key, lists the key whenever an enabled source has it, and
  leaves the cached client in place. \<open>clearCache\<close> empties the map, and a resolution
  that succeeds after it returns a newly constructed client.
\<close>

theorem handle_cache_uniqueness:
  "(\<not> list_ex is_clear ops \<longrightarrow>
      (\<exists>new. constructed (run ops m) = new @ constructed m \<and> distinct new \<and>
             set new \<inter> dom (clients m) = {}) \<and>
      (\<forall>k h. clients m k = Some h \<longrightarrow> clients (run ops m) k = Some h)) \<and>
   (clients m k = Some h \<and> k \<noteq> [] \<longrightarrow>
      getClient (Some k) config m =
        (if getSources config = [] then Inl NoEmbySource else Inr h, m)) \<and>
   (clients m k = Some h \<longrightarrow>
      (\<forall>c s. map_of (fst (getAllClients config m)) k = Some (c, s) \<longrightarrow> c = h) \<and>
      (k \<in> key ` set (getEnabledSources config) \<longrightarrow>
         k \<in> dom (map_of (fst (getAllClients config m)))) \<and>
      clients (snd (getAllClients config m)) k = Some h) \<and>
   clients (clearCache m) = Map.empty \<and>
   (\<forall>c m'. getClient k0 config (clearCache m) = (Inr c, m') \<longrightarrow>
      client_id c = length (constructed m) \<and>
      length (constructed m') = Suc (length (constructed m)))"
proof (intro conjI impI)
  assume nc: "\<not> list_ex is_clear ops"
  from grows_run [OF nc, of m]
  show "\<exists>new. constructed (run ops m) = new @ constructed m \<and> distinct new \<and>
             set new \<inter> dom (clients m) = {}"
    unfolding grows_def by blast
  from grows_run [OF nc, of m]
  show "\<forall>k h. clients m k = Some h \<longrightarrow> clients (run ops m) k = Some h"
    unfolding grows_def by blast
next
  assume "clients m k = Some h \<and> k \<noteq> []"
  then show "getClient (Some k) config m =
        (if getSources config = [] then Inl NoEmbySource else Inr h, m)"
    by (cases "getSources config") (simp_all add: getClient_def truthy_str_def or_empty_def)
next
  assume h: "clients m k = Some h"
  have kept: "clients (snd (getAllClients config m)) k = Some h"
    using grows_getAllClients [of m config] h unfolding grows_def by blast
  then show "clients (snd (getAllClients config m)) k = Some h" .
  show "\<forall>c s. map_of (fst (getAllClients config m)) k = Some (c, s) \<longrightarrow> c = h"
    using agrees_getAllClients [of config m] kept unfolding agrees_def by fastforce
next
  assume "k \<in> key ` set (getEnabledSources config)"
  then show "k \<in> dom (map_of (fst (getAllClients config m)))"
    by (simp add: dom_getAllClients)
next
  show "clients (clearCache m) = Map.empty"
    by (simp add: clearCache_def)
next
  show "\<forall>c m'. getClient k0 config (clearCache m) = (Inr c, m') \<longrightarrow>
      client_id c = length (constructed m) \<and>
      length (constructed m') = Suc (length (constructed m))"
    by (auto simp: getClient_def Let_def clearCache_def construct_def newClient_def
             split: option.splits if_splits)
qed

text \<open>
  The theorem at work: \<open>getClient('a')\<close>, \<open>getAllClients()\<close>, \<open>getClient()\<close> on two
  enabled sources construct one client for \<open>a\<close> and one for \<open>b\<close>; a second
  \<open>getClient('a')\<close> returns the client of the first.
\<close>

theorem handle_cache_uniqueness_witness:
  "constructed (run threeCalls manager0) = [''b'', ''a''] \<and>
   distinct (constructed (run threeCalls manager0)) \<and>
   clients (run [(cfgTwo, GetClient (Some ''a''))] manager0) ''a'' =
     Some \<lparr> client_id = 0, client_config = mkSource ''a'' ''A'' True None \<rparr> \<and>
   fst (getClient (Some ''a'') cfgTwo (run [(cfgTwo, GetClient (Some ''a''))] manager0)) =
     Inr \<lparr> client_id = 0, client_config = mkSource ''a'' ''A'' True None \<rparr>"
proof -
  have nc: "\<not> list_ex is_clear threeCalls"
    by (simp add: threeCalls_def)
  have e: "constructed (run threeCalls manager0) = [''b'', ''a'']"
    by (simp add: threeCalls_def fx mg)
  note once =
    handle_cache_uniqueness [of threeCalls manager0, THEN conjunct1, THEN mp, OF nc,
      THEN conjunct1]
  then obtain new where
    "constructed (run threeCalls manager0) = new @ constructed manager0" "distinct new"
    by blast
  then have d: "distinct (constructed (run threeCalls manager0))"
    by (simp add: manager0_def)
  define m1 where "m1 = run [(cfgTwo, GetClient (Some ''a''))] manager0"
  define h where "h = \<lparr> client_id = 0, client_config = mkSource ''a'' ''A'' True None \<rparr>"
  have c: "clients m1 ''a'' = Some h"
    unfolding m1_def h_def by (simp add: fx mg)
  have ne: "getSources cfgTwo \<noteq> []"
    by (simp add: fx mg)
  have c': "clients m1 ''a'' = Some h \<and> ''a'' \<noteq> []"
    using c by simp
  note same =
    handle_cache_uniqueness [of threeCalls m1 "''a''" h cfgTwo, THEN conjunct2,
      THEN conjunct1, THEN mp, OF c']
  have "fst (getClient (Some ''a'') cfgTwo m1) = Inr h"
    using same ne by simp
  with e d c show ?thesis
    unfolding m1_def h_def by simp
qed

text \<open>
  Claim C10 as it is worded does not hold for every later call: with a client cached
  under \<open>a\<close>, a \<open>getClient('a')\<close> made when the configuration has lost all its sources
  does not return that client; it fails with the not-configured error.
\<close>

theorem cached_handle_counterexample:
  "clients (run [(cfgTwo, GetClient (Some ''a''))] manager0) ''a'' =
     Some \<lparr> client_id = 0, client_config = mkSource ''a'' ''A'' True None \<rparr> \<and>
   getSources noEmbyConfig = [] \<and>
   fst (getClient (Some ''a'') noEmbyConfig (run [(cfgTwo, GetClient (Some ''a''))] manager0)) =
     Inl NoEmbySource"
  by (simp add: fx mg)

subsection \<open>Substrings\<close>

lemma startsWith_iff: "startsWith s w \<longleftrightarrow> (\<exists>post. s = w @ post)"
  by (induction s w rule: startsWith.induct) auto

lemma includes_iff: "includes' s w \<longleftrightarrow> (\<exists>pre post. s = pre @ w @ post)"
proof (induction s)
  case Nil
  show ?case by (auto simp: startsWith_iff)
next
  case (Cons c s)
  show ?case
  proof
    assume "includes' (c # s) w"
    then consider "startsWith (c # s) w" | "includes' s w"
      by auto
    then show "\<exists>pre post. c # s = pre @ w @ post"
    proof cases
      case 1
      then obtain post where "c # s = w @ post"
        by (auto simp: startsWith_iff)
      then have "c # s = [] @ w @ post"
        by simp
      then show ?thesis by blast
    next
      case 2
      with Cons.IH obtain pre post where "s = pre @ w @ post"
        by blast
      then have "c # s = (c # pre) @ w @ post"
        by simp
      then show ?thesis by blast
    qed
  next
    assume "\<exists>pre post. c # s = pre @ w @ post"
    then obtain pre post where e: "c # s = pre @ w @ post"
      by blast
    show "includes' (c # s) w"
    proof (cases pre)
      case Nil
      with e have "startsWith (c # s) w"
        by (auto simp: startsWith_iff)
      then show ?thesis by simp
    next
      case (Cons p pre')
      with e have "s = pre' @ w @ post"
        by simp
      with Cons.IH have "includes' s w"
        by blast
      then show ?thesis by simp
    qed
  qed
qed

subsection \<open>Cache expiry\<close>

text \<open>
  Claim C6. \<open>setCachedEmbyList\<close> stores the value with \<open>expiresAt\<close> equal to the time of
  the call plus the list TTL (six hours, 21600000 ms). A \<open>getCachedEmbyList\<close> for the
  same page, page size, parent id and Emby key returns the stored value and leaves the
  cache as it is at any time strictly before \<open>expiresAt\<close>; at \<open>expiresAt\<close> or later it
  returns absent and the entry is gone from the map. In any cache, a read that finds an
  entry whose \<open>expiresAt\<close> is not after the time of the read returns absent and deletes
  that entry.
\<close>

theorem cache_expiry:
  "(now' < now + EMBY_CACHE_TTL_MS \<longrightarrow>
      getCachedEmbyList now' page pageSize parentId embyKey
        (setCachedEmbyList now page pageSize d parentId embyKey cache) =
      (d, setCachedEmbyList now page pageSize d parentId embyKey cache)) \<and>
   (now + EMBY_CACHE_TTL_MS \<le> now' \<longrightarrow>
      getCachedEmbyList now' page pageSize parentId embyKey
        (setCachedEmbyList now page pageSize d parentId embyKey cache) =
      (None, cache(makeListCacheKey page pageSize parentId embyKey := None))) \<and>
   (\<forall>entry. cache (makeListCacheKey page pageSize parentId embyKey) = Some entry \<and>
        expiresAt entry \<le> now' \<longrightarrow>
      getCachedEmbyList now' page pageSize parentId embyKey cache =
      (None, cache(makeListCacheKey page pageSize parentId embyKey := None))) \<and>
   map_option expiresAt
     (setCachedEmbyList now page pageSize d parentId embyKey cache
        (makeListCacheKey page pageSize parentId embyKey)) = Some (now + 21600000)"
  by (auto simp: getCachedEmbyList_def setCachedEmbyList_def Let_def EMBY_CACHE_TTL_MS_def)

text \<open>
  The theorem at work: a list stored at time 1000 is read back one millisecond before
  it expires, and is absent and evicted at the instant it expires.
\<close>

theorem cache_expiry_witness:
  "makeListCacheKey 1 20 None (Some ''a'') = ''emby:a:list:1:20'' \<and>
   fst (getCachedEmbyList 21600999 1 20 None (Some ''a'')
          (setCachedEmbyList 1000 1 20 (Some ''views'') None (Some ''a'') Map.empty))
     = Some ''views'' \<and>
   fst (getCachedEmbyList 21601000 1 20 None (Some ''a'')
          (setCachedEmbyList 1000 1 20 (Some ''views'') None (Some ''a'') Map.empty))
     = None \<and>
   snd (getCachedEmbyList 21601000 1 20 None (Some ''a'')
          (setCachedEmbyList 1000 1 20 (Some ''views'') None (Some ''a'') Map.empty))
     ''emby:a:list:1:20'' = None"
proof -
  have k: "makeListCacheKey 1 20 None (Some ''a'') = ''emby:a:list:1:20''"
    by (simp add: makeListCacheKey_def truthy_str_def or_empty_def toString_def
                  nat_toString.simps)
  have lt: "(21600999::int) < 1000 + EMBY_CACHE_TTL_MS"
    and ge: "(1000::int) + EMBY_CACHE_TTL_MS \<le> 21601000"
    by (simp_all add: EMBY_CACHE_TTL_MS_def)
  note before =
    cache_expiry [of 21600999 1000 1 20 None "Some ''a''" "Some ''views''" Map.empty,
      THEN conjunct1, THEN mp, OF lt]
  note after =
    cache_expiry [of 21601000 1000 1 20 None "Some ''a''" "Some ''views''" Map.empty,
      THEN conjunct2, THEN conjunct1, THEN mp, OF ge]
  show ?thesis
    using k before after by simp
qed

subsection \<open>The content filter\<close>

text \<open>What the search handler answers to an authorised request with a query.\<close>

lemma GET_search_body:
  assumes "truthy_str authInfo" and "truthy_str query"
  shows "body (fst (GET_search env authInfo query config apiSites m)) =
           ResultsBody (yellowFilter (DisableYellowFilter config) (yellowWords env)
             (concat (successResults (searchPromises env (or_empty query) apiSites))))"
    and "status (fst (GET_search env authInfo query config apiSites m)) = 200"
  using assms by (simp_all add: GET_search_def Let_def split: prod.splits)

text \<open>
  Claim C9. With the filter on, a result is in the filtered list exactly when it is in
  the flattened list and its \<open>type_name\<close> (absent counts as empty) contains none of
  the blacklisted words as a substring. The filter is a pass over the list: filtering
  \<open>xs @ r # ys\<close> is filtering the three parts on their own, a result is kept as it is or
  dropped by looking at that result only, and permuting the input permutes the output.
  With the filter disabled the list is returned unchanged. The search handler answers
  with exactly this filter applied to the flattened list.
\<close>

theorem yellowFilter_pure:
  "(\<forall>r. r \<in> set (yellowFilter False words rs) \<longleftrightarrow>
        r \<in> set rs \<and>
        (\<forall>w \<in> set words. \<not> (\<exists>pre post. or_empty (type_name r) = pre @ w @ post))) \<and>
   yellowFilter False words (xs @ r # ys) =
     yellowFilter False words xs @ yellowFilter False words [r] @ yellowFilter False words ys \<and>
   yellowFilter False words [r] = (if survives words r then [r] else []) \<and>
   (mset xs = mset ys \<longrightarrow>
      mset (yellowFilter False words xs) = mset (yellowFilter False words ys)) \<and>
   yellowFilter True words rs = rs \<and>
   (truthy_str authInfo \<and> truthy_str query \<longrightarrow>
      body (fst (GET_search env authInfo query config apiSites m)) =
        ResultsBody (yellowFilter (DisableYellowFilter config) (yellowWords env)
          (concat (successResults (searchPromises env (or_empty query) apiSites)))))"
proof (intro conjI allI impI)
  fix r
  show "r \<in> set (yellowFilter False words rs) \<longleftrightarrow>
        r \<in> set rs \<and>
        (\<forall>w \<in> set words. \<not> (\<exists>pre post. or_empty (type_name r) = pre @ w @ post))"
    by (simp add: yellowFilter_def survives_def list_ex_iff includes_iff)
next
  show "yellowFilter False words (xs @ r # ys) =
     yellowFilter False words xs @ yellowFilter False words [r] @ yellowFilter False words ys"
    by (simp add: yellowFilter_def)
next
  show "yellowFilter False words [r] = (if survives words r then [r] else [])"
    by (simp add: yellowFilter_def)
next
  assume "mset xs = mset ys"
  then have "filter_mset (survives words) (mset xs) = filter_mset (survives words) (mset ys)"
    by simp
  then show "mset (yellowFilter False words xs) = mset (yellowFilter False words ys)"
    by (simp add: yellowFilter_def)
next
  show "yellowFilter True words rs = rs"
    by (simp add: yellowFilter_def)
next
  assume "truthy_str authInfo \<and> truthy_str query"
  then show "body (fst (GET_search env authInfo query config apiSites m)) =
        ResultsBody (yellowFilter (DisableYellowFilter config) (yellowWords env)
          (concat (successResults (searchPromises env (or_empty query) apiSites))))"
    by (simp add: GET_search_body)
qed

text \<open>
  The theorem at work: of three results the one whose type name contains the word is
  dropped, one without a type name is kept; the handler, asked by a logged-in user,
  returns the one hit of site 0 that passes, the sites that throw or hang adding nothing.
\<close>

theorem yellowFilter_pure_witness:
  "yellowFilter False [''xxx'']
     [mkResult ''1'' ''s0'' (Some ''drama''), mkResult ''2'' ''s0'' (Some ''xxx film''),
      mkResult ''3'' ''s0'' None] =
     [mkResult ''1'' ''s0'' (Some ''drama''), mkResult ''3'' ''s0'' None] \<and>
   body (fst (GET_search demoEnv (Some ''user'') (Some ''film'') cfgOne [0, 1, 2] manager0)) =
     ResultsBody [mkResult ''1'' ''s0'' (Some ''drama'')]"
proof -
  have s: "survives [''xxx''] (mkResult ''1'' ''s0'' (Some ''drama''))"
          "\<not> survives [''xxx''] (mkResult ''2'' ''s0'' (Some ''xxx film''))"
          "survives [''xxx''] (mkResult ''3'' ''s0'' None)"
    by (simp_all add: survives_def mkResult_sel or_empty_def)
  note split =
    yellowFilter_pure [of "[''xxx'']" "[]" "[mkResult ''1'' ''s0'' (Some ''drama'')]"
      "mkResult ''2'' ''s0'' (Some ''xxx film'')" "[mkResult ''3'' ''s0'' None]",
      THEN conjunct2, THEN conjunct1]
  have a: "truthy_str (Some ''user'') \<and> truthy_str (Some ''film'')"
    by (simp add: truthy_str_def)
  note search =
    yellowFilter_pure [of "[]" "[]" "[]" "mkResult ''1'' ''s0'' None" "[]" "Some ''user''"
      "Some ''film''" demoEnv cfgOne "[0, 1, 2]" manager0, THEN conjunct2, THEN conjunct2,
      THEN conjunct2, THEN conjunct2, THEN conjunct2, THEN mp, OF a]
  have d: "DisableYellowFilter cfgOne = False"
    by (simp add: fx)
  have y: "yellowWords demoEnv = [''xxx'']"
    by (simp add: demoEnv_def)
  have p:
    "concat (successResults (searchPromises demoEnv (or_empty (Some ''film'')) [0, 1, 2])) =
       [mkResult ''1'' ''s0'' (Some ''drama''), mkResult ''2'' ''s0'' (Some ''xxx film'')]"
    by (simp add: searchPromises_def demoEnv_def)
  show ?thesis
    using split search s d y p by (simp add: yellowFilter_def)
qed

subsection \<open>Source tags of the Emby search tasks\<close>

lemma update_fresh: "k \<notin> fst ` set al \<Longrightarrow> AList.update k v al = al @ [(k, v)]"
  by (induction al) auto

lemma step_fresh:
  "key s \<notin> fst ` set r \<Longrightarrow> \<exists>c. fst (getAllClients_step s (r, m)) = r @ [(key s, c, s)]"
  by (auto simp: getAllClients_step_def update_fresh split: option.splits)

lemma fold_fresh:
  "distinct (map fst r @ map key ss) \<Longrightarrow>
   map (\<lambda>e. snd (snd e)) (fst (fold getAllClients_step ss (r, m))) =
     map (\<lambda>e. snd (snd e)) r @ ss"
proof (induction ss arbitrary: r m)
  case Nil
  show ?case by simp
next
  case (Cons s ss)
  obtain r' m' where st: "getAllClients_step s (r, m) = (r', m')"
    by (cases "getAllClients_step s (r, m)")
  from Cons.prems have fresh: "key s \<notin> fst ` set r"
    by auto
  from step_fresh [OF fresh, of m] st obtain c where r': "r' = r @ [(key s, c, s)]"
    by auto
  with Cons.prems have "distinct (map fst r' @ map key ss)"
    by auto
  from Cons.IH [OF this, of m'] show ?case
    using st r' by simp
qed

text \<open>With distinct keys, the handler's \<open>embySources\<close> are the enabled sources in order.\<close>

lemma embySources_enabled:
  assumes "distinct (map key (getEnabledSources config))"
  shows "map snd (map snd (fst (getAllClients config m))) = getEnabledSources config"
  using fold_fresh [of "[]" "filter enabled (getSources config)" m] assms
  by (simp add: getAllClients_def getEnabledSources_def comp_def)

lemma embyTask_tag:
  assumes "r \<in> set (concat (successResults
             [catch_empty (race (embyTask env query n (client, embyConfig)))]))"
  shows "source r = (if n = 1 then ''emby'' else ''emby_'' @ key embyConfig)"
  using assms
  by (cases "getItems env client query") (auto simp: embyTask_def embyHit_def Let_def)

text \<open>
  Claim C4. Let the enabled Emby sources have distinct keys, as the data model
  requires of instance keys. Then the search handler makes one task per enabled source,
  in configuration order, and every result that the task of the \<open>i\<close>-th enabled source
  produces has the source tag \<open>emby\<close> when exactly one source is enabled, and
  \<open>emby_\<close> followed by that source's key when two or more are enabled.
\<close>

theorem emby_source_tags:
  assumes "distinct (map key (getEnabledSources config))"
    and "embySources = map snd (fst (getAllClients config m))"
  shows "map snd embySources = getEnabledSources config \<and>
         length (embyPromises env query embySources) = length (getEnabledSources config) \<and>
         (\<forall>i < length (getEnabledSources config).
            \<forall>r \<in> set (concat (successResults [embyPromises env query embySources ! i])).
              (length (getEnabledSources config) = 1 \<longrightarrow> source r = ''emby'') \<and>
              (2 \<le> length (getEnabledSources config) \<longrightarrow>
                 source r = ''emby_'' @ key (getEnabledSources config ! i)))"
proof -
  have en: "map snd embySources = getEnabledSources config"
    using embySources_enabled [OF assms(1), of m] assms(2) by simp
  then have len: "length embySources = length (getEnabledSources config)"
    by (metis length_map)
  have tags: "(length (getEnabledSources config) = 1 \<longrightarrow> source r = ''emby'') \<and>
              (2 \<le> length (getEnabledSources config) \<longrightarrow>
                 source r = ''emby_'' @ key (getEnabledSources config ! i))"
    if i: "i < length (getEnabledSources config)"
      and r: "r \<in> set (concat (successResults [embyPromises env query embySources ! i]))"
    for i r
  proof -
    obtain client embyConfig where ce: "embySources ! i = (client, embyConfig)"
      by (cases "embySources ! i")
    have "snd (embySources ! i) = getEnabledSources config ! i"
      using en i len by (metis nth_map)
    with ce have cfg: "embyConfig = getEnabledSources config ! i"
      by simp
    have "embyPromises env query embySources ! i =
            catch_empty (race (embyTask env query (length embySources) (client, embyConfig)))"
      using i len ce by (simp add: embyPromises_def)
    with r have "r \<in> set (concat (successResults
        [catch_empty (race (embyTask env query (length embySources) (client, embyConfig)))]))"
      by simp
    then have "source r =
        (if length embySources = 1 then ''emby'' else ''emby_'' @ key embyConfig)"
      by (rule embyTask_tag)
    with len cfg show ?thesis
      by auto
  qed
  have lp: "length (embyPromises env query embySources) = length (getEnabledSources config)"
    using len by (simp add: embyPromises_def)
  from en lp tags show ?thesis
    by blast
qed

lemma distinct_keys_cfgOne: "distinct (map key (getEnabledSources cfgOne))"
  by (simp add: fx mg)

lemma distinct_keys_cfgTwo: "distinct (map key (getEnabledSources cfgTwo))"
  by (simp add: fx mg)

text \<open>
  The theorem at work, on the two cases the specification names: one enabled source
  gives the tag \<open>emby\<close>; two enabled sources with keys \<open>a\<close> and \<open>b\<close> give \<open>emby_a\<close> and
  \<open>emby_b\<close>.
\<close>

theorem emby_source_tags_witness:
  "map (map source) (successResults (embyPromises demoEnv ''film''
      (map snd (fst (getAllClients cfgOne manager0))))) = [[''emby'']] \<and>
   map (map source) (successResults (embyPromises demoEnv ''film''
      (map snd (fst (getAllClients cfgTwo manager0))))) = [[''emby_a''], [''emby_b'']]"
proof -
  note one =
    emby_source_tags [OF distinct_keys_cfgOne refl,
      where env = demoEnv and query = "''film''" and m = manager0]
  note two =
    emby_source_tags [OF distinct_keys_cfgTwo refl,
      where env = demoEnv and query = "''film''" and m = manager0]
  show ?thesis
    using one two by (simp add: fx mg sr)
qed

subsection \<open>What the search handler aggregates\<close>

text \<open>
  A site whose call throws or outlasts the timer adds nothing, the others add their
  hits in the order of the sites; together with \<open>GET_search_body\<close>, the handler
  answers 200 with the filtered hits of the API sites, whatever any task does.
\<close>

lemma site_failures_isolated:
  "concat (successResults (searchPromises env q sites)) =
     concat (map (\<lambda>site. case searchFromApi env site q of
                             Returns v \<Rightarrow> v | Throws \<Rightarrow> [] | Hangs \<Rightarrow> []) sites)"
  by (induction sites) (auto simp: searchPromises_def split: outcome.splits)

text \<open>
  Claim C1 asks that the hits of every enabled Emby instance appear in the list that
  the search returns. The handler builds the Emby promises and then awaits the
  API-site promises only. At this input (a logged-in user, the query \<open>film\<close>, one
  enabled Emby source whose server returns one film, no API site) the Emby task is
  fulfilled with one hit tagged \<open>emby\<close>, and the response carries no result.
\<close>

theorem search_drops_emby_hits:
  "successResults (embyPromises demoEnv ''film''
      (map snd (fst (getAllClients cfgOne manager0)))) =
     [[embyHit demoEnv \<lparr> client_id = 0, client_config = mkSource ''a'' ''A'' True None \<rparr>
         ''emby'' ''Emby'' demoItem]] \<and>
   fst (GET_search demoEnv (Some ''user'') (Some ''film'') cfgOne [] manager0) =
     \<lparr> status = 200, body = ResultsBody [], cache_max_age = None \<rparr>"
  by (simp add: fx mg GET_search_def searchPromises_def embyPromises_def embyTask_def
                yellowFilter_def demoEnv_def)

text \<open>
  Claim C3 asks that, when some tasks throw or time out, the search still returns the
  combined results of the remaining tasks. Failing tasks do degrade to empty lists and
  the handler still answers 200, but the remaining tasks are not all combined: at this
  input API site 1 throws, API site 2 hangs, and the one enabled Emby source answers
  with a film; the response carries no result, not that film.
\<close>

theorem search_failure_loses_emby_hits:
  "searchPromises demoEnv ''film'' [1, 2] = [Fulfilled [], Fulfilled []] \<and>
   map (map source) (successResults (embyPromises demoEnv ''film''
      (map snd (fst (getAllClients cfgOne manager0))))) = [[''emby'']] \<and>
   fst (GET_search demoEnv (Some ''user'') (Some ''film'') cfgOne [1, 2] manager0) =
     \<lparr> status = 200, body = ResultsBody [], cache_max_age = None \<rparr>"
  by (simp add: fx mg sr)

subsection \<open>Order of the episodes of a series\<close>

lemma mset_insert_by: "mset (insert_by c x ys) = add_mset x (mset ys)"
  by (induction ys) auto

lemma set_insert_by: "set (insert_by c x ys) = insert x (set ys)"
  by (induction ys) auto

lemma mset_Array_sort: "mset (Array_sort c xs) = mset xs"
  by (induction xs) (auto simp: Array_sort_def mset_insert_by)

text \<open>No episode is dropped or duplicated by the sort, whatever indices are missing.\<close>

lemma sortEpisodes_mset: "mset (sortEpisodes eps) = mset eps"
  by (simp add: sortEpisodes_def mset_Array_sort)

lemma seasonEpisodeLe_total: "seasonEpisodeLe a b \<or> seasonEpisodeLe b a"
  by (auto simp: seasonEpisodeLe_def)

lemma seasonEpisodeLe_trans:
  "seasonEpisodeLe a b \<Longrightarrow> seasonEpisodeLe b c \<Longrightarrow> seasonEpisodeLe a c"
  by (auto simp: seasonEpisodeLe_def)

text \<open>
  The comparison callback tests the raw season indices for inequality and subtracts
  the defaulted ones. The two agree except on a pair where one season index is missing
  and the other is 0.
\<close>

lemma compare_agrees:
  assumes "\<not> (ParentIndexNumber a = None \<and> ParentIndexNumber b = Some 0)"
    and "\<not> (ParentIndexNumber b = None \<and> ParentIndexNumber a = Some 0)"
  shows "episodeCompare a b \<le> 0 \<longleftrightarrow> seasonEpisodeLe a b"
  using assms
  by (cases "ParentIndexNumber a"; cases "ParentIndexNumber b")
     (auto simp: episodeCompare_def seasonEpisodeLe_def or0_def)

lemma sorted_insert_by:
  assumes "sorted_wrt seasonEpisodeLe ys" and "unambiguous (insert x (set ys))"
  shows "sorted_wrt seasonEpisodeLe (insert_by episodeCompare x ys)"
  using assms
proof (induction ys)
  case Nil
  show ?case by simp
next
  case (Cons y ys)
  have ag: "episodeCompare x y \<le> 0 \<longleftrightarrow> seasonEpisodeLe x y"
    using Cons.prems(2) by (intro compare_agrees) (auto simp: unambiguous_def)
  show ?case
  proof (cases "episodeCompare x y \<le> 0")
    case True
    with ag have xy: "seasonEpisodeLe x y"
      by simp
    have "\<forall>z \<in> set ys. seasonEpisodeLe x z"
      using Cons.prems(1) xy seasonEpisodeLe_trans by auto
    with True xy Cons.prems(1) show ?thesis
      by simp
  next
    case False
    with ag seasonEpisodeLe_total [of x y] have yx: "seasonEpisodeLe y x"
      by blast
    have cl: "unambiguous (insert x (set ys))"
      using Cons.prems(2) by (auto simp: unambiguous_def)
    have "sorted_wrt seasonEpisodeLe (insert_by episodeCompare x ys)"
      using Cons.IH Cons.prems(1) cl by simp
    moreover have "\<forall>z \<in> set (insert_by episodeCompare x ys). seasonEpisodeLe y z"
      using Cons.prems(1) yx by (auto simp: set_insert_by)
    ultimately show ?thesis
      using False by simp
  qed
qed

text \<open>
  Where no episode lacks a season index while another has season index 0, the sorted
  list is in the order the specification asks.
\<close>

lemma sortEpisodes_sorted:
  assumes "unambiguous (set eps)"
  shows "sorted_wrt seasonEpisodeLe (sortEpisodes eps)"
  using assms
proof (induction eps)
  case Nil
  show ?case by (simp add: sortEpisodes_def Array_sort_def)
next
  case (Cons e eps)
  have "unambiguous (set eps)"
    using Cons.prems by (auto simp: unambiguous_def)
  with Cons.IH have s: "sorted_wrt seasonEpisodeLe (sortEpisodes eps)"
    by simp
  have "set (sortEpisodes eps) = set eps"
    using sortEpisodes_mset [of eps] by (metis set_mset_mset)
  with Cons.prems have "unambiguous (insert e (set (sortEpisodes eps)))"
    by simp
  from sorted_insert_by [OF s this] show ?case
    by (simp add: sortEpisodes_def Array_sort_def)
qed

lemma mkEpisode_sel:
  "Id (mkEpisode i p n) = i" "ParentIndexNumber (mkEpisode i p n) = p"
  "IndexNumber (mkEpisode i p n) = n"
  by (simp_all add: mkEpisode_def)

text \<open>
  The example of the specification: episodes (1,2), (1,1), (2,1) and one without
  indices; the one without indices comes first, none is dropped.
\<close>

lemma episode_order_spec_example:
  "sortEpisodes [mkEpisode ''b'' (Some 1) (Some 2), mkEpisode ''a'' (Some 1) (Some 1),
                 mkEpisode ''c'' (Some 2) (Some 1), mkEpisode ''m'' None None] =
     [mkEpisode ''m'' None None, mkEpisode ''a'' (Some 1) (Some 1),
      mkEpisode ''b'' (Some 1) (Some 2), mkEpisode ''c'' (Some 2) (Some 1)]"
  by (simp add: sortEpisodes_def Array_sort_def episodeCompare_def mkEpisode_sel or0_def)

text \<open>
  Claim C5 asks that the episode list be ordered by season index, then episode index,
  a missing index counting as 0. At this input the series has an episode 5 without a
  season index and an episode 1 of season 0, fetched in that order. The callback
  compares them as equal (the season indices differ as raw values, and their
  defaulted difference is 0), so the stable sort leaves episode 5 before episode 1,
  which is not the asked order; the detail lists the two playback URLs and titles in
  that order.
\<close>

theorem episode_order_failing_input:
  "sortEpisodes [mkEpisode ''x5'' None (Some 5), mkEpisode ''x1'' (Some 0) (Some 1)] =
     [mkEpisode ''x5'' None (Some 5), mkEpisode ''x1'' (Some 0) (Some 1)] \<and>
   \<not> sorted_wrt seasonEpisodeLe
        (sortEpisodes [mkEpisode ''x5'' None (Some 5), mkEpisode ''x1'' (Some 0) (Some 1)]) \<and>
   sorted_wrt seasonEpisodeLe
     [mkEpisode ''x1'' (Some 0) (Some 1), mkEpisode ''x5'' None (Some 5)] \<and>
   map_sum id episodes (fst (getEmbyDetail demoDetailEnv ''emby'' ''s1'' cfgOne manager0)) =
     Inr [''/play/x5'', ''/play/x1''] \<and>
   map_sum id episodes_titles
       (fst (getEmbyDetail demoDetailEnv ''emby'' ''s1'' cfgOne manager0)) =
     Inr [''S01E05'', ''S01E01'']"
  by (simp add: sortEpisodes_def Array_sort_def episodeCompare_def mkEpisode_sel or0_def
        or1_def seasonEpisodeLe_def getEmbyDetail_def noSources_def parseEmbyKey_def
        sourceNameOf_def fx mg demoDetailEnv_def demoSeries_def seriesDetail_def
        episodeTitle_def padStart2_def toString_def nat_toString.simps)

subsection \<open>The play proxy retries once after a 401\<close>

lemma getEmbyClient_after_clear:
  "getEmbyClient k config (clearCache m) = (Inr c, m2) \<Longrightarrow>
   client_id c = length (constructed m)"
  by (auto simp: getEmbyClient_def getClient_def Let_def clearCache_def newClient_def
           split: if_splits option.splits)

lemma fetch_count:
  "length (fetched (snd (resolve_and_fetch env i k rh config st))) \<le> Suc (length (fetched st))"
  by (auto simp: resolve_and_fetch_def fetch_def split: prod.splits sum.splits)

lemma play_fetch_bound:
  "length (fetched (snd (GET_play env tok auth itemId embyKey rh config st)))
     \<le> length (fetched st) + 2"
proof -
  have one: "length (fetched (snd (resolve_and_fetch env i k rh config s)))
               \<le> Suc (length (fetched s))" for i k s
    by (rule fetch_count)
  show ?thesis
  proof (cases "resolve_and_fetch env (or_empty itemId) embyKey rh config st")
    case (Pair res st1)
    have l1: "length (fetched st1) \<le> Suc (length (fetched st))"
      using one [of "or_empty itemId" embyKey st] Pair by simp
    have l2: "length (fetched (snd (resolve_and_fetch env (or_empty itemId) embyKey rh config
                 (st1 \<lparr> manager := clearCache (manager st1) \<rparr>))))
              \<le> Suc (length (fetched st1))"
      using one [of "or_empty itemId" embyKey "st1 \<lparr> manager := clearCache (manager st1) \<rparr>"]
      by simp
    show ?thesis
      using Pair l1 l2
      by (auto simp: GET_play_def split: prod.splits sum.splits)
  qed
qed

lemma failed_is_500: "play_status (failed e) = 500" "play_body (failed e) = PlayFailed e"
  by (simp_all add: failed_def)

lemma respond_cases:
  "\<not> ok r \<Longrightarrow> play_status (respond r) = 500 \<and> play_body (respond r) = StreamFailed"
  "ok r \<Longrightarrow> play_status (respond r) = resp_status r \<and> play_body (respond r) = Stream r"
  by (simp_all add: respond_def)

text \<open>
  Claim C8. For an authorised request with an item id: the handler never fetches
  upstream more than twice. When the first fetch succeeds with a status other than 401
  it is the only fetch and its response is answered (streamed through when ok, the
  500 stream-failed error otherwise). When it gets 401, the handler clears the
  manager's cache and resolves the client again, which constructs a new client; it
  builds the stream URL from that client and fetches once more, with no further fetch.
  Whatever the retry does, the request then ends: the answer is status 500 unless the
  second fetch returned an ok response, which is streamed through with its status.
  Case by case: a second response that is not ok, a second 401 included, gives the 500
  stream-failed error; a second fetch that throws gives the 500 play-failed error with
  the thrown error, after two fetches; a failing second resolution or a failing
  rebuild of the URL gives the 500 play-failed error with no second fetch. A failure
  before any upstream response also gives the 500 play-failed error.
\<close>

theorem play_retry_once:
  assumes "hasValidToken \<or> hasValidAuth" and "truthy_str itemId"
    and "GET_play env hasValidToken hasValidAuth itemId embyKey rangeHeader config st =
           (response, st')"
  shows
   "length (fetched st') \<le> length (fetched st) + 2 \<and>
    (\<forall>client1 m1 url1 r1.
       getEmbyClient embyKey config (manager st) = (Inr client1, m1) \<and>
       streamUrl env client1 (or_empty itemId) = Inr url1 \<and>
       upstream env (length (fetched st)) url1 rangeHeader = Inr r1 \<longrightarrow>
         (resp_status r1 \<noteq> 401 \<longrightarrow>
            fetched st' = url1 # fetched st \<and> response = respond r1 \<and>
            (\<not> ok r1 \<longrightarrow>
               play_status response = 500 \<and> play_body response = StreamFailed) \<and>
            (ok r1 \<longrightarrow>
               play_status response = resp_status r1 \<and> play_body response = Stream r1)) \<and>
         (resp_status r1 = 401 \<longrightarrow>
            (\<forall>e m2. getEmbyClient embyKey config (clearCache m1) = (Inl e, m2) \<longrightarrow>
               fetched st' = url1 # fetched st \<and> response = failed e \<and>
               play_status response = 500 \<and> play_body response = PlayFailed e) \<and>
            (\<forall>client2 m2 e.
               getEmbyClient embyKey config (clearCache m1) = (Inr client2, m2) \<and>
               streamUrl env client2 (or_empty itemId) = Inl e \<longrightarrow>
                 fetched st' = url1 # fetched st \<and>
                 play_status response = 500 \<and> play_body response = PlayFailed e) \<and>
            (\<forall>client2 m2 url2 e.
               getEmbyClient embyKey config (clearCache m1) = (Inr client2, m2) \<and>
               streamUrl env client2 (or_empty itemId) = Inr url2 \<and>
               upstream env (Suc (length (fetched st))) url2 rangeHeader = Inl e \<longrightarrow>
                 fetched st' = url2 # url1 # fetched st \<and>
                 play_status response = 500 \<and> play_body response = PlayFailed e) \<and>
            (\<forall>client2 m2 url2 r2.
               getEmbyClient embyKey config (clearCache m1) = (Inr client2, m2) \<and>
               streamUrl env client2 (or_empty itemId) = Inr url2 \<and>
               upstream env (Suc (length (fetched st))) url2 rangeHeader = Inr r2 \<longrightarrow>
                 fetched st' = url2 # url1 # fetched st \<and>
                 manager st' = m2 \<and>
                 client_id client2 = length (constructed m1) \<and>
                 response = respond r2 \<and>
                 (\<not> ok r2 \<longrightarrow>
                    play_status response = 500 \<and> play_body response = StreamFailed) \<and>
                 (resp_status r2 = 401 \<longrightarrow> play_status response = 500) \<and>
                 (ok r2 \<longrightarrow>
                    play_status response = resp_status r2 \<and>
                    play_body response = Stream r2)) \<and>
            (play_status response = 500 \<or>
             (\<exists>client2 m2 url2 r2.
                getEmbyClient embyKey config (clearCache m1) = (Inr client2, m2) \<and>
                streamUrl env client2 (or_empty itemId) = Inr url2 \<and>
                upstream env (Suc (length (fetched st))) url2 rangeHeader = Inr r2 \<and>
                ok r2 \<and> play_status response = resp_status r2 \<and>
                play_body response = Stream r2)))) \<and>
    (\<forall>e st1. resolve_and_fetch env (or_empty itemId) embyKey rangeHeader config st =
                (Inl e, st1) \<longrightarrow>
       play_status response = 500 \<and> play_body response = PlayFailed e)"
proof (intro conjI allI impI)
  show "length (fetched st') \<le> length (fetched st) + 2"
    using play_fetch_bound [of env hasValidToken hasValidAuth itemId embyKey rangeHeader
            config st] assms(3)
    by simp
next
  fix e st1
  assume "resolve_and_fetch env (or_empty itemId) embyKey rangeHeader config st = (Inl e, st1)"
  with assms have "response = failed e"
    by (auto simp: GET_play_def)
  then show "play_status response = 500" "play_body response = PlayFailed e"
    by (simp_all add: failed_is_500)
next
  fix client1 m1 url1 r1
  assume a: "getEmbyClient embyKey config (manager st) = (Inr client1, m1) \<and>
       streamUrl env client1 (or_empty itemId) = Inr url1 \<and>
       upstream env (length (fetched st)) url1 rangeHeader = Inr r1"
  define st1 where "st1 = st \<lparr> manager := m1, fetched := url1 # fetched st \<rparr>"
  have st1: "manager st1 = m1" "fetched st1 = url1 # fetched st"
    by (simp_all add: st1_def)
  define cleared where "cleared = st1 \<lparr> manager := clearCache (manager st1) \<rparr>"
  have cl: "manager cleared = clearCache m1" "fetched cleared = url1 # fetched st"
    by (simp_all add: cleared_def st1)
  from a have first:
    "resolve_and_fetch env (or_empty itemId) embyKey rangeHeader config st = (Inr r1, st1)"
    by (simp add: resolve_and_fetch_def fetch_def st1_def)
  have play: "(response, st') =
      (if resp_status r1 = 401 then
         (case resolve_and_fetch env (or_empty itemId) embyKey rangeHeader config cleared of
            (Inl e, st2) \<Rightarrow> (failed e, st2)
          | (Inr videoResponse2, st2) \<Rightarrow> (respond videoResponse2, st2))
       else (respond r1, st1))"
    using assms first by (auto simp: GET_play_def cleared_def)
  {
    assume "resp_status r1 \<noteq> 401"
    with play st1 have r: "response = respond r1" "fetched st' = url1 # fetched st"
      by simp_all
    then show "fetched st' = url1 # fetched st" "response = respond r1"
      by simp_all
    {
      assume "\<not> ok r1"
      with r show "play_status response = 500" "play_body response = StreamFailed"
        by (simp_all add: respond_cases)
    }
    {
      assume "ok r1"
      with r show "play_status response = resp_status r1" "play_body response = Stream r1"
        by (simp_all add: respond_cases)
    }
  }
  {
    fix e m2
    assume "resp_status r1 = 401" "getEmbyClient embyKey config (clearCache m1) = (Inl e, m2)"
    with play cl have r: "response = failed e" "fetched st' = url1 # fetched st"
      by (simp_all add: resolve_and_fetch_def)
    then show "fetched st' = url1 # fetched st" "response = failed e"
        "play_status response = 500" "play_body response = PlayFailed e"
      by (simp_all add: failed_is_500)
  }
  {
    fix client2 m2 e
    assume "resp_status r1 = 401"
       "getEmbyClient embyKey config (clearCache m1) = (Inr client2, m2) \<and>
        streamUrl env client2 (or_empty itemId) = Inl e"
    with play cl have r: "response = failed e" "fetched st' = url1 # fetched st"
      by (simp_all add: resolve_and_fetch_def)
    then show "fetched st' = url1 # fetched st"
        "play_status response = 500" "play_body response = PlayFailed e"
      by (simp_all add: failed_is_500)
  }
  {
    fix client2 m2 url2 e
    assume "resp_status r1 = 401"
       "getEmbyClient embyKey config (clearCache m1) = (Inr client2, m2) \<and>
        streamUrl env client2 (or_empty itemId) = Inr url2 \<and>
        upstream env (Suc (length (fetched st))) url2 rangeHeader = Inl e"
    with play cl have r: "response = failed e" "fetched st' = url2 # url1 # fetched st"
      by (simp_all add: resolve_and_fetch_def fetch_def)
    then show "fetched st' = url2 # url1 # fetched st"
        "play_status response = 500" "play_body response = PlayFailed e"
      by (simp_all add: failed_is_500)
  }
  {
    fix client2 m2 url2 r2
    assume u: "resp_status r1 = 401"
      and b: "getEmbyClient embyKey config (clearCache m1) = (Inr client2, m2) \<and>
               streamUrl env client2 (or_empty itemId) = Inr url2 \<and>
               upstream env (Suc (length (fetched st))) url2 rangeHeader = Inr r2"
    with play cl have res: "response = respond r2" "fetched st' = url2 # url1 # fetched st"
        "manager st' = m2"
      by (simp_all add: resolve_and_fetch_def fetch_def)
    then show "fetched st' = url2 # url1 # fetched st" "manager st' = m2"
        "response = respond r2"
      by simp_all
    from b show "client_id client2 = length (constructed m1)"
      by (auto dest: getEmbyClient_after_clear)
    {
      assume "\<not> ok r2"
      with res show "play_status response = 500" "play_body response = StreamFailed"
        by (simp_all add: respond_cases)
    }
    {
      assume "resp_status r2 = 401"
      then have "\<not> ok r2"
        by (simp add: ok_def)
      with res show "play_status response = 500"
        by (simp add: respond_cases)
    }
    {
      assume "ok r2"
      with res show "play_status response = resp_status r2" "play_body response = Stream r2"
        by (simp_all add: respond_cases)
    }
  }
  {
    assume u: "resp_status r1 = 401"
    show "play_status response = 500 \<or>
             (\<exists>client2 m2 url2 r2.
                getEmbyClient embyKey config (clearCache m1) = (Inr client2, m2) \<and>
                streamUrl env client2 (or_empty itemId) = Inr url2 \<and>
                upstream env (Suc (length (fetched st))) url2 rangeHeader = Inr r2 \<and>
                ok r2 \<and> play_status response = resp_status r2 \<and>
                play_body response = Stream r2)"
    proof (cases "getEmbyClient embyKey config (clearCache m1)")
      case (Pair res m2)
      show ?thesis
      proof (cases res)
        case (Inl e)
        with Pair play cl u have "response = failed e"
          by (simp add: resolve_and_fetch_def)
        then show ?thesis
          by (simp add: failed_is_500)
      next
        case (Inr client2)
        note c2 = Pair [unfolded Inr]
        show ?thesis
        proof (cases "streamUrl env client2 (or_empty itemId)")
          case (Inl e)
          with c2 play cl u have "response = failed e"
            by (simp add: resolve_and_fetch_def)
          then show ?thesis
            by (simp add: failed_is_500)
        next
          case url: (Inr url2)
          show ?thesis
          proof (cases "upstream env (Suc (length (fetched st))) url2 rangeHeader")
            case (Inl e)
            with c2 url play cl u have "response = failed e"
              by (simp add: resolve_and_fetch_def fetch_def)
            then show ?thesis
              by (simp add: failed_is_500)
          next
            case (Inr r2)
            with c2 url play cl u have r: "response = respond r2"
              by (simp add: resolve_and_fetch_def fetch_def)
            show ?thesis
            proof (cases "ok r2")
              case True
              with r have "play_status response = resp_status r2 \<and>
                           play_body response = Stream r2"
                by (simp add: respond_cases)
              with c2 url Inr True show ?thesis
                by blast
            next
              case False
              with r show ?thesis
                by (simp add: respond_cases)
            qed
          qed
        qed
      qed
    qed
  }
qed

lemmas pl =
  GET_play_def resolve_and_fetch_def fetch_def getEmbyClient_def noSources_def
  expiredOnceEnv_def alwaysDeniedEnv_def retryThrowsEnv_def respond_def ok_def
  mkResponse_def play0_def

text \<open>
  The theorem at work, for a token-authorised request for item \<open>i9\<close> on source \<open>a\<close>.
  Against the server whose session had expired, the first fetch gets 401, a second
  client is constructed and the second fetch's 206 is answered. Against the server that
  always denies, the second 401 ends the request with status 500 after two fetches.
  Against the server that drops the retry, the thrown error ends it with status 500
  after two fetches. With a client cached for a source that has since been disabled,
  the resolution after the 401 fails and the request ends with status 500 after one
  fetch.
\<close>

theorem play_retry_once_witness:
  "play_status (fst (GET_play expiredOnceEnv True False (Some ''i9'') (Some ''a'') None
      cfgTwo play0)) = 206 \<and>
   fetched (snd (GET_play expiredOnceEnv True False (Some ''i9'') (Some ''a'') None
      cfgTwo play0)) =
     [''http://emby.local:8096/Videos/i9'', ''http://emby.local:8096/Videos/i9''] \<and>
   constructed (manager (snd (GET_play expiredOnceEnv True False (Some ''i9'') (Some ''a'')
      None cfgTwo play0))) = [''a'', ''a''] \<and>
   play_status (fst (GET_play alwaysDeniedEnv True False (Some ''i9'') (Some ''a'') None
      cfgTwo play0)) = 500 \<and>
   play_body (fst (GET_play alwaysDeniedEnv True False (Some ''i9'') (Some ''a'') None
      cfgTwo play0)) = StreamFailed \<and>
   fetched (snd (GET_play alwaysDeniedEnv True False (Some ''i9'') (Some ''a'') None
      cfgTwo play0)) =
     [''http://emby.local:8096/Videos/i9'', ''http://emby.local:8096/Videos/i9''] \<and>
   play_status (fst (GET_play retryThrowsEnv True False (Some ''i9'') (Some ''a'') None
      cfgTwo play0)) = 500 \<and>
   play_body (fst (GET_play retryThrowsEnv True False (Some ''i9'') (Some ''a'') None
      cfgTwo play0)) = PlayFailed (ExternalError ''connection reset'') \<and>
   fetched (snd (GET_play retryThrowsEnv True False (Some ''i9'') (Some ''a'') None
      cfgTwo play0)) =
     [''http://emby.local:8096/Videos/i9'', ''http://emby.local:8096/Videos/i9''] \<and>
   play_status (fst (GET_play alwaysDeniedEnv True False (Some ''i9'') (Some ''a'') None
      cfgAB playCached)) = 500 \<and>
   play_body (fst (GET_play alwaysDeniedEnv True False (Some ''i9'') (Some ''a'') None
      cfgAB playCached)) = PlayFailed (SourceDisabled ''A'') \<and>
   fetched (snd (GET_play alwaysDeniedEnv True False (Some ''i9'') (Some ''a'') None
      cfgAB playCached)) = [''http://emby.local:8096/Videos/i9'']"
proof -
  let ?url = "''http://emby.local:8096/Videos/i9''"
  let ?src = "mkSource ''a'' ''A'' True None"
  let ?c1 = "\<lparr> client_id = 0, client_config = ?src \<rparr>"
  let ?c2 = "\<lparr> client_id = 1, client_config = ?src \<rparr>"
  let ?m1 = "\<lparr> clients = [''a'' \<mapsto> ?c1], constructed = [''a''] \<rparr>"
  let ?m2 = "\<lparr> clients = [''a'' \<mapsto> ?c2], constructed = [''a'', ''a''] \<rparr>"
  have a1: "True \<or> False"
    by simp
  have a2: "truthy_str (Some ''i9'')"
    by (simp add: truthy_str_def)
  have s401: "resp_status (mkResponse 401) = 401"
    by (simp add: mkResponse_def)
  have nok: "\<not> ok (mkResponse 401)"
    by (simp add: ok_def mkResponse_def)
  have ok206: "ok (mkResponse 206)" "resp_status (mkResponse 206) = 206"
    by (simp_all add: ok_def mkResponse_def)

  have A1: "getEmbyClient (Some ''a'') cfgTwo (manager play0) = (Inr ?c1, ?m1) \<and>
       streamUrl expiredOnceEnv ?c1 (or_empty (Some ''i9'')) = Inr ?url \<and>
       upstream expiredOnceEnv (length (fetched play0)) ?url None = Inr (mkResponse 401)"
    by (simp add: pl fx mg)
  have A2: "getEmbyClient (Some ''a'') cfgTwo (clearCache ?m1) = (Inr ?c2, ?m2) \<and>
       streamUrl expiredOnceEnv ?c2 (or_empty (Some ''i9'')) = Inr ?url \<and>
       upstream expiredOnceEnv (Suc (length (fetched play0))) ?url None =
         Inr (mkResponse 206)"
    by (simp add: pl fx mg)
  note once =
    play_retry_once [OF a1 a2 prod.collapse [symmetric],
      where env = expiredOnceEnv and embyKey = "Some ''a''" and rangeHeader = None
        and config = cfgTwo and st = play0]
  note retried =
    once [THEN conjunct2, THEN conjunct1, THEN spec, THEN spec, THEN spec, THEN spec,
      THEN mp, OF A1, THEN conjunct2, THEN mp, OF s401, THEN conjunct2, THEN conjunct2,
      THEN conjunct2, THEN conjunct1, THEN spec, THEN spec, THEN spec, THEN spec,
      THEN mp, OF A2]
  have first:
    "play_status (fst (GET_play expiredOnceEnv True False (Some ''i9'') (Some ''a'') None
        cfgTwo play0)) = 206 \<and>
     fetched (snd (GET_play expiredOnceEnv True False (Some ''i9'') (Some ''a'') None
        cfgTwo play0)) = [?url, ?url] \<and>
     constructed (manager (snd (GET_play expiredOnceEnv True False (Some ''i9'') (Some ''a'')
        None cfgTwo play0))) = [''a'', ''a'']"
    using retried ok206 by (simp add: play0_def respond_def)

  have B1: "getEmbyClient (Some ''a'') cfgTwo (manager play0) = (Inr ?c1, ?m1) \<and>
       streamUrl alwaysDeniedEnv ?c1 (or_empty (Some ''i9'')) = Inr ?url \<and>
       upstream alwaysDeniedEnv (length (fetched play0)) ?url None = Inr (mkResponse 401)"
    by (simp add: pl fx mg)
  have B2: "getEmbyClient (Some ''a'') cfgTwo (clearCache ?m1) = (Inr ?c2, ?m2) \<and>
       streamUrl alwaysDeniedEnv ?c2 (or_empty (Some ''i9'')) = Inr ?url \<and>
       upstream alwaysDeniedEnv (Suc (length (fetched play0))) ?url None =
         Inr (mkResponse 401)"
    by (simp add: pl fx mg)
  note denied =
    play_retry_once [OF a1 a2 prod.collapse [symmetric],
      where env = alwaysDeniedEnv and embyKey = "Some ''a''" and rangeHeader = None
        and config = cfgTwo and st = play0]
  note terminal =
    denied [THEN conjunct2, THEN conjunct1, THEN spec, THEN spec, THEN spec, THEN spec,
      THEN mp, OF B1, THEN conjunct2, THEN mp, OF s401, THEN conjunct2, THEN conjunct2,
      THEN conjunct2, THEN conjunct1, THEN spec, THEN spec, THEN spec, THEN spec,
      THEN mp, OF B2]
  have second:
    "play_status (fst (GET_play alwaysDeniedEnv True False (Some ''i9'') (Some ''a'') None
        cfgTwo play0)) = 500 \<and>
     play_body (fst (GET_play alwaysDeniedEnv True False (Some ''i9'') (Some ''a'') None
        cfgTwo play0)) = StreamFailed \<and>
     fetched (snd (GET_play alwaysDeniedEnv True False (Some ''i9'') (Some ''a'') None
        cfgTwo play0)) = [?url, ?url]"
    using terminal nok by (simp add: play0_def respond_def)

  have C1: "getEmbyClient (Some ''a'') cfgTwo (manager play0) = (Inr ?c1, ?m1) \<and>
       streamUrl retryThrowsEnv ?c1 (or_empty (Some ''i9'')) = Inr ?url \<and>
       upstream retryThrowsEnv (length (fetched play0)) ?url None = Inr (mkResponse 401)"
    by (simp add: pl fx mg)
  have C2: "getEmbyClient (Some ''a'') cfgTwo (clearCache ?m1) = (Inr ?c2, ?m2) \<and>
       streamUrl retryThrowsEnv ?c2 (or_empty (Some ''i9'')) = Inr ?url \<and>
       upstream retryThrowsEnv (Suc (length (fetched play0))) ?url None =
         Inl (ExternalError ''connection reset'')"
    by (simp add: pl fx mg)
  note dropped =
    play_retry_once [OF a1 a2 prod.collapse [symmetric],
      where env = retryThrowsEnv and embyKey = "Some ''a''" and rangeHeader = None
        and config = cfgTwo and st = play0]
  note thrown =
    dropped [THEN conjunct2, THEN conjunct1, THEN spec, THEN spec, THEN spec, THEN spec,
      THEN mp, OF C1, THEN conjunct2, THEN mp, OF s401, THEN conjunct2, THEN conjunct2,
      THEN conjunct1, THEN spec, THEN spec, THEN spec, THEN spec, THEN mp, OF C2]
  have third:
    "play_status (fst (GET_play retryThrowsEnv True False (Some ''i9'') (Some ''a'') None
        cfgTwo play0)) = 500 \<and>
     play_body (fst (GET_play retryThrowsEnv True False (Some ''i9'') (Some ''a'') None
        cfgTwo play0)) = PlayFailed (ExternalError ''connection reset'') \<and>
     fetched (snd (GET_play retryThrowsEnv True False (Some ''i9'') (Some ''a'') None
        cfgTwo play0)) = [?url, ?url]"
    using thrown by (simp add: play0_def)

  have D1: "getEmbyClient (Some ''a'') cfgAB (manager playCached) = (Inr ?c1, ?m1) \<and>
       streamUrl alwaysDeniedEnv ?c1 (or_empty (Some ''i9'')) = Inr ?url \<and>
       upstream alwaysDeniedEnv (length (fetched playCached)) ?url None =
         Inr (mkResponse 401)"
    by (simp add: pl playCached_def fx mg)
  have D2: "getEmbyClient (Some ''a'') cfgAB (clearCache ?m1) =
              (Inl (SourceDisabled ''A''), clearCache ?m1)"
    by (simp add: pl fx mg)
  note stale =
    play_retry_once [OF a1 a2 prod.collapse [symmetric],
      where env = alwaysDeniedEnv and embyKey = "Some ''a''" and rangeHeader = None
        and config = cfgAB and st = playCached]
  note unresolved =
    stale [THEN conjunct2, THEN conjunct1, THEN spec, THEN spec, THEN spec, THEN spec,
      THEN mp, OF D1, THEN conjunct2, THEN mp, OF s401, THEN conjunct1, THEN spec,
      THEN spec, THEN mp, OF D2]
  have fourth:
    "play_status (fst (GET_play alwaysDeniedEnv True False (Some ''i9'') (Some ''a'') None
        cfgAB playCached)) = 500 \<and>
     play_body (fst (GET_play alwaysDeniedEnv True False (Some ''i9'') (Some ''a'') None
        cfgAB playCached)) = PlayFailed (SourceDisabled ''A'') \<and>
     fetched (snd (GET_play alwaysDeniedEnv True False (Some ''i9'') (Some ''a'') None
        cfgAB playCached)) = [?url]"
    using unresolved by (simp add: playCached_def failed_is_500)
  from first second third fourth show ?thesis
    by blast
qed

end
